theory Spec2Isabelle
  imports Complex_Main "HOL-Library.AList" "HOL-Library.Sublist"
begin

section \<open>Values, strings and dictionaries\<close>

text \<open>
  Python strings are modelled as \<open>string\<close>: lists of characters with code points below 256.
  \<open>isspace\<close> is Python's \<open>str.isspace\<close> on that range (tab, line feed, vertical tab, form
  feed, carriage return, the four separators 0x1C..0x1F, space, NEL 0x85 and the no-break
  space 0xA0), and \<open>py_strip\<close> is \<open>str.strip()\<close> without arguments.
\<close>

definition isspace :: "char \<Rightarrow> bool" where
  "isspace c = (c \<in> set [CHR 0x09, CHR 0x0A, CHR 0x0B, CHR 0x0C, CHR 0x0D,
                          CHR 0x1C, CHR 0x1D, CHR 0x1E, CHR 0x1F, CHR 0x20,
                          CHR 0x85, CHR 0xA0])"

definition py_strip :: "string \<Rightarrow> string" where
  "py_strip s = rev (dropWhile isspace (rev (dropWhile isspace s)))"

text \<open>\<open>sub in s\<close> on strings: \<open>sub\<close> occurs in \<open>s\<close> as a contiguous run.\<close>

fun contains :: "string \<Rightarrow> string \<Rightarrow> bool" where
  "contains sub [] = (sub = [])"
| "contains sub (c # cs) = (prefix sub (c # cs) \<or> contains sub cs)"

text \<open>
  The values \<open>json.load\<close> produces. Floats are only stored and compared, never computed
  with, so a real number stands for a finite float.
\<close>

datatype jval =
    JNull
  | JBool bool
  | JInt int
  | JFloat real
  | JStr string
  | JArr "jval list"
  | JObj "(string \<times> jval) list"

text \<open>Python truthiness, as tested by \<open>not x\<close> and \<open>if x\<close>.\<close>

fun truthy :: "jval \<Rightarrow> bool" where
  "truthy JNull = False"
| "truthy (JBool b) = b"
| "truthy (JInt n) = (n \<noteq> 0)"
| "truthy (JFloat r) = (r \<noteq> 0)"
| "truthy (JStr s) = (s \<noteq> [])"
| "truthy (JArr xs) = (xs \<noteq> [])"
| "truthy (JObj kvs) = (kvs \<noteq> [])"

text \<open>
  A Python \<open>dict\<close> with string keys is an association list in insertion order with distinct
  keys. \<open>d[k] = v\<close> is \<open>AList.update k v d\<close> (an existing key keeps its place, a new key goes
  last), \<open>d.get(k)\<close> is \<open>map_of d k\<close>, and \<open>d.update(e)\<close> stores the items of \<open>e\<close> in order.
  Two dicts are equal in Python when they hold the same items, whatever the order:
  \<open>map_of d = map_of e\<close>.
\<close>

type_synonym pydict = "(string \<times> jval) list"

fun dict_update :: "pydict \<Rightarrow> (string \<times> jval) list \<Rightarrow> pydict" where
  "dict_update d [] = d"
| "dict_update d ((k, v) # kvs) = dict_update (AList.update k v d) kvs"

definition dict_get :: "pydict \<Rightarrow> string \<Rightarrow> jval option" where
  "dict_get d k = map_of d k"

section \<open>Config Store\<close>

definition DEFAULT_MAIN_CONFIG :: pydict where
  "DEFAULT_MAIN_CONFIG =
     [(''model'', JStr ''whisper-1''),
      (''language'', JStr ''en''),
      (''energy_threshold'', JInt 500),
      (''record_timeout'', JFloat 2),
      (''phrase_timeout'', JFloat 3)]"

definition DEFAULT_SENSITIVE_CONFIG :: pydict where
  "DEFAULT_SENSITIVE_CONFIG = [(''hotkey'', JStr ''''), (''api_key'', JStr '''')]"

text \<open>
  A configuration file on disk. \<open>NoFile\<close>: \<open>os.path.exists\<close> is false. \<open>Doc kvs\<close>: the file
  holds a JSON object whose members are \<open>kvs\<close> in textual order (a key may occur twice in
  the text; \<open>json.load\<close> keeps the last). \<open>Unreadable\<close>: the file exists but \<open>open\<close> or
  \<open>json.load\<close> raises, or the document is a scalar, so that \<open>dict.update\<close> raises before it
  stores anything; the \<open>except\<close> branch then leaves the defaults. A document whose top level
  is an array is outside this model. \<open>json.dump\<close> followed by \<open>json.load\<close> gives back the
  value, which is the library's contract for values that came from \<open>json.load\<close>.
\<close>

datatype cfile = NoFile | Unreadable | Doc "(string \<times> jval) list"

record disk =
  main_file :: cfile
  sensitive_file :: cfile

definition json_load :: "(string \<times> jval) list \<Rightarrow> pydict" where
  "json_load kvs = dict_update [] kvs"

text \<open>One of the two \<open>try\<close> blocks of \<open>_load_config\<close>: the copy of the defaults, updated from the file.\<close>

definition load_file :: "pydict \<Rightarrow> cfile \<Rightarrow> pydict" where
  "load_file defaults f =
     (case f of
        NoFile \<Rightarrow> defaults
      | Unreadable \<Rightarrow> defaults
      | Doc kvs \<Rightarrow> dict_update defaults (json_load kvs))"

definition load_config :: "disk \<Rightarrow> pydict" where
  "load_config d =
     (let main_config = load_file DEFAULT_MAIN_CONFIG (main_file d);
          sensitive_config = load_file DEFAULT_SENSITIVE_CONFIG (sensitive_file d)
      in dict_update (dict_update [] main_config) sensitive_config)"

text \<open>The loop of \<open>_save_config\<close> over \<open>self.config.items()\<close>, with the two dicts it fills.\<close>

fun split_items :: "(string \<times> jval) list \<Rightarrow> pydict \<times> pydict \<Rightarrow> pydict \<times> pydict" where
  "split_items [] (main_config, sensitive_config) = (main_config, sensitive_config)"
| "split_items ((key, val) # items) (main_config, sensitive_config) =
     (if key \<in> fst ` set DEFAULT_SENSITIVE_CONFIG
      then split_items items (main_config, AList.update key val sensitive_config)
      else split_items items (AList.update key val main_config, sensitive_config))"

text \<open>
  Writing one document: \<open>open(path, 'w')\<close> either succeeds, and the file then holds the
  dumped dict, or raises, which \<open>_save_config\<close> prints and ignores; the file is then
  as it was.
\<close>

definition write_file :: "bool \<Rightarrow> pydict \<Rightarrow> cfile \<Rightarrow> cfile" where
  "write_file ok d f = (if ok then Doc d else f)"

record save_env =
  main_write_ok :: bool
  sensitive_write_ok :: bool

definition save_config :: "save_env \<Rightarrow> pydict \<Rightarrow> disk \<Rightarrow> disk" where
  "save_config e cfg d =
     (let (main_config, sensitive_config) = split_items cfg ([], [])
      in \<lparr> main_file = write_file (main_write_ok e) main_config (main_file d),
           sensitive_file = write_file (sensitive_write_ok e) sensitive_config (sensitive_file d) \<rparr>)"

definition secret_keys :: "string set" where
  "secret_keys = {''hotkey'', ''api_key''}"

text \<open>The keys a file contributes: none when it is missing or unreadable.\<close>

definition doc_items :: "cfile \<Rightarrow> (string \<times> jval) list" where
  "doc_items f = (case f of Doc kvs \<Rightarrow> kvs | _ \<Rightarrow> [])"

definition doc_keys :: "cfile \<Rightarrow> string set" where
  "doc_keys f = fst ` set (doc_items f)"

section \<open>Recording Session Controller\<close>

text \<open>
  \<open>AudioRecorder\<close> is a record of its fields. The world around it is part of the record
  too: \<open>emitted\<close> is the sequence of signals it has emitted and of calls it has made to its
  collaborators (timer, worker thread, remote service, \<open>os.unlink\<close>), oldest first, and
  \<open>tmp_files\<close> is the set of temporary files that exist. An audio chunk is the block of
  samples the input stream hands to the callback; it is only stored.
\<close>

type_synonym chunk = "real list"

datatype thread = CaptureThread

datatype callback = ShowApiKeySettings

datatype effect =
    StatusUpdate string
  | RecordingStateChanged bool
  | SingleShot nat callback
  | ModelsList string
  | ThreadStart
  | ThreadJoin
  | TranscriptionCreate string jval jval string
  | Unlink string

record recorder =
  config :: pydict
  is_recording :: bool
  audio_data :: "chunk list"
  recording_thread :: "thread option"
  client :: "string option"
  emitted :: "effect list"
  tmp_files :: "string set"

text \<open>
  What the collaborators answer during one call. \<open>Some msg\<close> and \<open>Inl msg\<close> stand for an
  exception \<open>e\<close> with \<open>str(e) = msg\<close>; \<open>None\<close> and \<open>Inr\<close> for a normal return.
  \<open>thread.join()\<close>, the remote calls and \<open>np.concatenate\<close> are taken to return.
\<close>

record env =
  openai_ctor :: "string option"
  models_list :: "string option"
  query_devices :: "string option"
  thread_start :: "string option"
  named_temporary_file :: "string + string"
  sf_write :: "string option"
  open_rb :: "string option"
  transcriptions_create :: "string + string"
  os_unlink :: bool

definition emit :: "effect \<Rightarrow> recorder \<Rightarrow> recorder" where
  "emit x r = r\<lparr>emitted := emitted r @ [x]\<rparr>"

fun type_name :: "jval \<Rightarrow> string" where
  "type_name JNull = ''NoneType''"
| "type_name (JBool b) = ''bool''"
| "type_name (JInt n) = ''int''"
| "type_name (JFloat x) = ''float''"
| "type_name (JStr s) = ''str''"
| "type_name (JArr xs) = ''list''"
| "type_name (JObj kvs) = ''dict''"

text \<open>The text of the \<open>AttributeError\<close> and of the \<open>KeyError\<close> Python raises.\<close>

definition no_attribute :: "jval \<Rightarrow> string \<Rightarrow> string" where
  "no_attribute x a =
     [CHR 0x27] @ type_name x @ [CHR 0x27] @ '' object has no attribute '' @ [CHR 0x27] @ a @ [CHR 0x27]"

definition key_error :: "string \<Rightarrow> string" where
  "key_error k = [CHR 0x27] @ k @ [CHR 0x27]"

definition get_or_none :: "pydict \<Rightarrow> string \<Rightarrow> jval" where
  "get_or_none d k = (case dict_get d k of None \<Rightarrow> JNull | Some v \<Rightarrow> v)"

text \<open>The three ways \<open>_init_openai_client\<close> returns \<open>False\<close>.\<close>

definition no_valid_key :: "recorder \<Rightarrow> bool \<times> recorder" where
  "no_valid_key r =
     (False, emit (StatusUpdate ''Error: No valid OpenAI API key found in config'') r)"

definition testing_failed :: "string \<Rightarrow> recorder \<Rightarrow> bool \<times> recorder" where
  "testing_failed msg r =
     (False, (emit (StatusUpdate (''Error testing OpenAI API: '' @ msg)) r)\<lparr>client := None\<rparr>)"

definition initializing_failed :: "string \<Rightarrow> recorder \<Rightarrow> bool \<times> recorder" where
  "initializing_failed msg r =
     (False, (emit (StatusUpdate (''Error initializing OpenAI client: '' @ msg)) r)\<lparr>client := None\<rparr>)"

definition init_openai_client :: "env \<Rightarrow> recorder \<Rightarrow> bool \<times> recorder" where
  "init_openai_client e r =
     (let api_key = get_or_none (config r) ''api_key'' in
      if \<not> truthy api_key then no_valid_key r
      else
        (case api_key of
           JStr k \<Rightarrow>
             if py_strip k = [] \<or> contains ''your-api-key'' k then no_valid_key r
             else
               (case openai_ctor e of
                  Some msg \<Rightarrow> initializing_failed msg r
                | None \<Rightarrow>
                    (let r1 = emit (ModelsList k) (r\<lparr>client := Some k\<rparr>) in
                     case models_list e of
                       None \<Rightarrow> (True, r1)
                     | Some msg \<Rightarrow> testing_failed msg r1))
         | _ \<Rightarrow> initializing_failed (no_attribute api_key ''strip'') r))"

definition init_recorder :: "env \<Rightarrow> string set \<Rightarrow> pydict \<Rightarrow> recorder" where
  "init_recorder e fs cfg =
     snd (init_openai_client e
            \<lparr> config = cfg, is_recording = False, audio_data = [], recording_thread = None,
              client = None, emitted = [], tmp_files = fs \<rparr>)"

text \<open>The \<open>except\<close> branch of \<open>start_recording\<close>.\<close>

definition start_failed :: "string \<Rightarrow> recorder \<Rightarrow> bool \<times> recorder" where
  "start_failed msg r =
     (False,
      emit (RecordingStateChanged False)
        ((emit (StatusUpdate (''Error in start_recording: '' @ msg)) r)\<lparr>is_recording := False\<rparr>))"

definition start_recording :: "env \<Rightarrow> recorder \<Rightarrow> bool \<times> recorder" where
  "start_recording e r =
     (if is_recording r then (False, r)
      else
        (let (ok, r1) = (if client r \<noteq> None then (True, r) else init_openai_client e r) in
         if \<not> ok then
           (False,
            emit (SingleShot 1000 ShowApiKeySettings)
              (emit (StatusUpdate
                 ''Error: Failed to initialize OpenAI client. Please check your API key.'') r1))
         else
           (case query_devices e of
              Some msg \<Rightarrow> start_failed msg r1
            | None \<Rightarrow>
                (let r2 = emit (RecordingStateChanged True)
                            (emit (StatusUpdate ''Recording...'')
                               (r1\<lparr>is_recording := True, audio_data := []\<rparr>));
                     r3 = r2\<lparr>recording_thread := Some CaptureThread\<rparr>
                 in case thread_start e of
                      Some msg \<Rightarrow> start_failed msg r3
                    | None \<Rightarrow> (True, emit ThreadStart r3)))))"

text \<open>
  The body of the \<open>try\<close> of \<open>stop_recording\<close>, after \<open>"Transcribing..."\<close> has been emitted:
  \<open>Inl msg\<close> is an exception raised inside it, \<open>Inr text\<close> the value it returns.
\<close>

definition transcribe :: "env \<Rightarrow> string \<Rightarrow> recorder \<Rightarrow> (string + string) \<times> recorder" where
  "transcribe e name r =
     (case open_rb e of
        Some msg \<Rightarrow> (Inl msg, r)
      | None \<Rightarrow>
         (case client r of
            None \<Rightarrow> (Inl (no_attribute JNull ''audio''), r)
          | Some key \<Rightarrow>
             (case dict_get (config r) ''model'' of
                None \<Rightarrow> (Inl (key_error ''model''), r)
              | Some model \<Rightarrow>
                 (case dict_get (config r) ''language'' of
                    None \<Rightarrow> (Inl (key_error ''language''), r)
                  | Some language \<Rightarrow>
                     (let r1 = emit (TranscriptionCreate key model language name) r in
                      case transcriptions_create e of
                        Inl msg \<Rightarrow> (Inl msg, r1)
                      | Inr response_text \<Rightarrow>
                         (let text = py_strip response_text in
                          (Inr text,
                           if text \<noteq> [] then emit (StatusUpdate ''Transcription complete'') r1
                           else r1)))))))"

text \<open>The \<open>finally\<close> branch: \<open>os.unlink\<close>, whose failure is passed over.\<close>

definition unlink_tmp :: "env \<Rightarrow> string \<Rightarrow> recorder \<Rightarrow> recorder" where
  "unlink_tmp e name r =
     (let r1 = emit (Unlink name) r in
      if os_unlink e then r1\<lparr>tmp_files := tmp_files r1 - {name}\<rparr> else r1)"

text \<open>
  \<open>stop_recording\<close>: \<open>Inr s\<close> is the returned string, \<open>Inl msg\<close> an exception that leaves the
  method (only the creation and the writing of the temporary file are outside the \<open>try\<close>).
\<close>

definition stop_recording :: "env \<Rightarrow> recorder \<Rightarrow> (string + string) \<times> recorder" where
  "stop_recording e r =
     (if \<not> is_recording r then (Inr [], r)
      else
        (let r1 = emit (RecordingStateChanged False) (r\<lparr>is_recording := False\<rparr>);
             r2 = (if recording_thread r1 \<noteq> None then emit ThreadJoin r1 else r1)
         in if audio_data r2 = [] then (Inr [], emit (StatusUpdate ''No audio recorded'') r2)
            else
              (case named_temporary_file e of
                 Inl msg \<Rightarrow> (Inl msg, r2)
               | Inr name \<Rightarrow>
                  (let r3 = r2\<lparr>tmp_files := insert name (tmp_files r2)\<rparr> in
                   case sf_write e of
                     Some msg \<Rightarrow> (Inl msg, r3)
                   | None \<Rightarrow>
                      (let (res, r4) = transcribe e name (emit (StatusUpdate ''Transcribing...'') r3)
                       in case res of
                            Inr text \<Rightarrow> (Inr text, unlink_tmp e name r4)
                          | Inl msg \<Rightarrow>
                              (Inr [],
                               unlink_tmp e name
                                 (emit (StatusUpdate (''Error in transcription: '' @ msg)) r4)))))))"

definition update_config :: "env \<Rightarrow> pydict \<Rightarrow> recorder \<Rightarrow> (string + bool) \<times> recorder" where
  "update_config e new_config r =
     (let r1 = r\<lparr>config := new_config\<rparr>;
          (res, r2) = (if is_recording r1 then stop_recording e r1 else (Inr [], r1))
      in case res of
           Inl msg \<Rightarrow> (Inl msg, r2)
         | Inr text \<Rightarrow>
            (let (success, r3) = init_openai_client e r2
             in (Inr success,
                 emit (StatusUpdate
                         (if success then ''API key updated successfully''
                          else ''Error: Failed to initialize with new API key'')) r3)))"

text \<open>
  The capture worker runs \<open>_record_audio\<close> on its own thread. Its two writes to the
  recorder are atomic steps of the model: the stream's callback, which appends a chunk while
  the flag is set, and the \<open>except\<close> branch taken when the input stream fails.
\<close>

definition audio_callback :: "chunk \<Rightarrow> recorder \<Rightarrow> recorder" where
  "audio_callback indata r =
     (if is_recording r then r\<lparr>audio_data := audio_data r @ [indata]\<rparr> else r)"

definition record_audio_failed :: "string \<Rightarrow> recorder \<Rightarrow> recorder" where
  "record_audio_failed msg r =
     emit (RecordingStateChanged False)
       ((emit (StatusUpdate (''Error in audio stream: '' @ msg)) r)\<lparr>is_recording := False\<rparr>)"

text \<open>
  The controller as a machine: every method and worker step that writes \<open>is_recording\<close>.
\<close>

datatype session = Idle | Recording

definition session_of :: "recorder \<Rightarrow> session" where
  "session_of r = (if is_recording r then Recording else Idle)"

datatype op =
    Start env
  | Stop env
  | UpdateConfig env pydict
  | AudioCallback chunk
  | StreamError string

fun step :: "op \<Rightarrow> recorder \<Rightarrow> recorder" where
  "step (Start e) r = snd (start_recording e r)"
| "step (Stop e) r = snd (stop_recording e r)"
| "step (UpdateConfig e cfg) r = snd (update_config e cfg r)"
| "step (AudioCallback c) r = audio_callback c r"
| "step (StreamError msg) r = record_audio_failed msg r"

text \<open>Whether a step calls \<open>stop_recording\<close>: \<open>stop()\<close> itself, or \<open>update_config\<close>, which calls it.\<close>

fun calls_stop :: "op \<Rightarrow> bool" where
  "calls_stop (Stop e) = True"
| "calls_stop (UpdateConfig e cfg) = True"
| "calls_stop _ = False"

fun is_start :: "op \<Rightarrow> bool" where
  "is_start (Start e) = True"
| "is_start _ = False"

fun is_stream_error :: "op \<Rightarrow> bool" where
  "is_stream_error (StreamError msg) = True"
| "is_stream_error _ = False"

text \<open>The status messages among a sequence of effects, and what was emitted since a state.\<close>

fun statuses :: "effect list \<Rightarrow> string list" where
  "statuses [] = []"
| "statuses (StatusUpdate m # xs) = m # statuses xs"
| "statuses (x # xs) = statuses xs"

fun remote_calls :: "effect list \<Rightarrow> effect list" where
  "remote_calls [] = []"
| "remote_calls (TranscriptionCreate k m l f # xs) = TranscriptionCreate k m l f # remote_calls xs"
| "remote_calls (x # xs) = remote_calls xs"

definition since :: "recorder \<Rightarrow> recorder \<Rightarrow> effect list" where
  "since r r' = drop (length (emitted r)) (emitted r')"

section \<open>Hotkey Bridge\<close>

text \<open>
  \<open>TextCreatorApp\<close> with the parts of the world it acts on: \<open>hotkeys\<close> are the combinations
  bound in the \<open>keyboard\<close> library, \<open>written\<close> the texts passed to \<open>keyboard.write\<close>, oldest
  first, and \<open>files\<close> the two configuration files. \<open>app_is_recording\<close> is \<open>None\<close> until
  \<open>toggle_recording\<close> creates the attribute.
\<close>

record app =
  app_config :: pydict
  app_is_recording :: "bool option"
  app_recorder :: recorder
  hotkeys :: "jval list"
  written :: "string list"
  files :: disk

text \<open>
  \<open>register_hotkey\<close>. \<open>accepts\<close> says which combinations \<open>keyboard.add_hotkey\<close> can parse; for
  the others it raises, and the \<open>except\<close> branch prints the error. \<open>keyboard.unhook_all\<close>
  is taken to succeed.
\<close>

definition register_hotkey :: "(jval \<Rightarrow> bool) \<Rightarrow> save_env \<Rightarrow> app \<Rightarrow> app" where
  "register_hotkey accepts se a =
     (let a1 = a\<lparr>hotkeys := []\<rparr>;
          hotkey_combination = get_or_none (app_config a1) ''hotkey'';
          (hotkey_combination, a2) =
            (if \<not> truthy hotkey_combination then
               (let cfg = AList.update ''hotkey'' (JStr ''ctrl+alt+d'') (app_config a1)
                in (JStr ''ctrl+alt+d'',
                    a1\<lparr>app_config := cfg, files := save_config se cfg (files a1)\<rparr>))
             else (hotkey_combination, a1))
      in if accepts hotkey_combination
         then a2\<lparr>hotkeys := hotkeys a2 @ [hotkey_combination]\<rparr>
         else a2)"

text \<open>A re-registration after a settings change: the new configuration, then \<open>register_hotkey\<close>.\<close>

definition reregister :: "(jval \<Rightarrow> bool) \<Rightarrow> save_env \<Rightarrow> pydict \<Rightarrow> app \<Rightarrow> app" where
  "reregister accepts se cfg a = register_hotkey accepts se (a\<lparr>app_config := cfg\<rparr>)"

text \<open>The combination a configuration asks for, with the fallback of \<open>register_hotkey\<close>.\<close>

definition combination_of :: "pydict \<Rightarrow> jval" where
  "combination_of cfg =
     (let h = get_or_none cfg ''hotkey'' in if truthy h then h else JStr ''ctrl+alt+d'')"

text \<open>
  \<open>toggle_recording\<close>. An exception from \<open>stop_recording\<close> is caught and printed; one from
  \<open>keyboard.write\<close> too, after the call was made.
\<close>

definition toggle_recording :: "env \<Rightarrow> app \<Rightarrow> app" where
  "toggle_recording e a =
     (let a0 = (case app_is_recording a of None \<Rightarrow> a\<lparr>app_is_recording := Some False\<rparr> | Some b \<Rightarrow> a)
      in if app_is_recording a0 = Some True then
           (let a1 = a0\<lparr>app_is_recording := Some False\<rparr>;
                (res, r) = stop_recording e (app_recorder a1);
                a2 = a1\<lparr>app_recorder := r\<rparr>
            in case res of
                 Inl msg \<Rightarrow> a2
               | Inr text \<Rightarrow>
                   if text \<noteq> [] \<and> py_strip text \<noteq> []
                   then a2\<lparr>written := written a2 @ [text]\<rparr>
                   else a2)
         else
           (let (ok, r) = start_recording e (app_recorder a0);
                a1 = a0\<lparr>app_recorder := r\<rparr>
            in if ok then a1\<lparr>app_is_recording := Some True\<rparr> else a1))"

section \<open>Notions used in the statements\<close>

text \<open>
  \<open>calls_remote\<close>: the \<open>try\<close> block gets as far as the remote call (the written file can be
  opened, there is a client, the configuration names a model and a language).
  \<open>remote_call_made\<close>: \<open>stop_recording\<close> gets as far as the remote call (a session is
  active, it has audio, the temporary file was created and written, and \<open>calls_remote\<close>).
  \<open>the_call\<close> is that call, and \<open>before_try\<close> the recorder at the start of the \<open>try\<close> block.
\<close>

definition calls_remote :: "env \<Rightarrow> recorder \<Rightarrow> bool" where
  "calls_remote e r \<longleftrightarrow>
     open_rb e = None \<and> client r \<noteq> None \<and>
     dict_get (config r) ''model'' \<noteq> None \<and> dict_get (config r) ''language'' \<noteq> None"

definition container_written :: "env \<Rightarrow> recorder \<Rightarrow> bool" where
  "container_written e r \<longleftrightarrow>
     is_recording r \<and> audio_data r \<noteq> [] \<and> \<not> isl (named_temporary_file e) \<and> sf_write e = None"

definition remote_call_made :: "env \<Rightarrow> recorder \<Rightarrow> bool" where
  "remote_call_made e r \<longleftrightarrow> container_written e r \<and> calls_remote e r"

definition tmp_name :: "env \<Rightarrow> string" where
  "tmp_name e = projr (named_temporary_file e)"

definition the_call :: "string \<Rightarrow> recorder \<Rightarrow> effect" where
  "the_call name r =
     TranscriptionCreate (the (client r)) (the (dict_get (config r) ''model''))
       (the (dict_get (config r) ''language'')) name"

definition before_try :: "string \<Rightarrow> recorder \<Rightarrow> recorder" where
  "before_try name r =
     emit (StatusUpdate ''Transcribing...'')
       ((if recording_thread r \<noteq> None
         then emit ThreadJoin (emit (RecordingStateChanged False) (r\<lparr>is_recording := False\<rparr>))
         else emit (RecordingStateChanged False) (r\<lparr>is_recording := False\<rparr>))
        \<lparr>tmp_files := insert name (tmp_files r)\<rparr>)"

fun unlinks :: "effect list \<Rightarrow> string list" where
  "unlinks [] = []"
| "unlinks (Unlink name # xs) = name # unlinks xs"
| "unlinks (x # xs) = unlinks xs"

section \<open>Example inputs\<close>

text \<open>
  A general document that names a model and (in the wrong file) a hotkey, and a secret
  document that holds the key and overrides the language.
\<close>

definition d0 :: disk where
  "d0 = \<lparr> main_file = Doc [(''model'', JStr ''gpt-4o-transcribe''), (''hotkey'', JStr ''f9'')],
          sensitive_file = Doc [(''api_key'', JStr ''sk-test''), (''language'', JStr ''de'')] \<rparr>"

definition se0 :: save_env where
  "se0 = \<lparr> main_write_ok = True, sensitive_write_ok = True \<rparr>"

definition d1 :: disk where
  "d1 = \<lparr> main_file = Doc [(''language'', JStr ''fr''), (''model'', JStr ''gpt-4o-transcribe'')],
          sensitive_file = Doc [(''language'', JStr ''de''), (''api_key'', JStr ''sk-test'')] \<rparr>"

text \<open>
  A recorder made from the loaded configuration, whose key the probe accepts; the same
  recorder after \<open>start_recording\<close> and three chunks; and the answers of the collaborators:
  all well, the remote call failing, the deletion failing.
\<close>

definition cfg_ok :: pydict where
  "cfg_ok = load_config d0"

definition e_ok :: env where
  "e_ok = \<lparr> openai_ctor = None, models_list = None, query_devices = None, thread_start = None,
            named_temporary_file = Inr ''/tmp/tmpk3x9.wav'', sf_write = None, open_rb = None,
            transcriptions_create = Inr '' hello world  '', os_unlink = True \<rparr>"

definition e_remote_fails :: env where
  "e_remote_fails = e_ok\<lparr>transcriptions_create := Inl ''Connection error.''\<rparr>"

definition e_unlink_fails :: env where
  "e_unlink_fails = e_ok\<lparr>os_unlink := False\<rparr>"

definition e_disk_full :: env where
  "e_disk_full = e_ok\<lparr>sf_write := Some ''disk full''\<rparr>"

definition e_no_reason :: env where
  "e_no_reason = e_ok\<lparr>transcriptions_create := Inl []\<rparr>"

definition r_idle :: recorder where
  "r_idle = init_recorder e_ok {} cfg_ok"

definition r_rec :: recorder where
  "r_rec = audio_callback [0.5]
             (audio_callback [0.25, 0] (audio_callback [0] (snd (start_recording e_ok r_idle))))"

definition r_started :: recorder where
  "r_started = snd (start_recording e_ok r_idle)"

text \<open>
  An application whose session is active, and configurations that ask for \<open>f9\<close>, for a
  combination with a mistyped key name, and for no combination. \<open>known_hotkeys\<close> stands for
  a \<open>keyboard\<close> library that can parse three combinations.
\<close>

definition a_rec :: app where
  "a_rec = \<lparr> app_config = cfg_ok, app_is_recording = Some True, app_recorder = r_rec,
             hotkeys = [JStr ''f9''], written = [], files = d0 \<rparr>"

definition known_hotkeys :: "jval \<Rightarrow> bool" where
  "known_hotkeys h = (h \<in> set [JStr ''ctrl+alt+d'', JStr ''f9'', JStr ''ctrl+shift+x''])"

definition cfg_f9 :: pydict where
  "cfg_f9 = AList.update ''hotkey'' (JStr ''f9'') cfg_ok"

definition cfg_typo :: pydict where
  "cfg_typo = AList.update ''hotkey'' (JStr ''ctrl+alt+dd'') cfg_ok"

text \<open>The configuration after the user has cleared the key in the settings dialog.\<close>

definition cfg_blank :: pydict where
  "cfg_blank = AList.update ''api_key'' (JStr '''') cfg_ok"

section \<open>Properties of the Config Store\<close>

subsection \<open>Dictionary lemmas\<close>

lemma map_of_dict_update:
  "map_of (dict_update d kvs) = map_of d ++ map_of (rev kvs)"
proof (induction kvs arbitrary: d)
  case Nil
  show ?case by simp
next
  case (Cons p kvs)
  obtain k v where p: "p = (k, v)" by (cases p)
  have "map_of (dict_update d (p # kvs)) = (map_of d)(k \<mapsto> v) ++ map_of (rev kvs)"
    by (simp only: p dict_update.simps Cons.IH update_conv')
  also have "\<dots> = map_of d ++ map_of (rev (p # kvs))"
    by (simp add: p)
  finally show ?case .
qed

lemma distinct_dict_update:
  "distinct (map fst d) \<Longrightarrow> distinct (map fst (dict_update d kvs))"
  by (induction kvs arbitrary: d) (auto simp: distinct_update)

lemma map_of_rev_distinct:
  "distinct (map fst xs) \<Longrightarrow> map_of (rev xs) = map_of xs"
proof (induction xs)
  case Nil
  show ?case by simp
next
  case (Cons p xs)
  obtain k v where p: "p = (k, v)" by (cases p)
  from Cons.prems have notin: "k \<notin> fst ` set xs" and dist: "distinct (map fst xs)"
    by (auto simp: p)
  have none: "map_of xs k = None"
    using notin by (simp add: map_of_eq_None_iff)
  show ?case
  proof (rule ext)
    fix x
    show "map_of (rev (p # xs)) x = map_of (p # xs) x"
      using none by (cases "x = k") (auto simp: p Cons.IH [OF dist] map_add_def split: option.splits)
  qed
qed

lemma map_of_dict_update_distinct:
  "distinct (map fst kvs) \<Longrightarrow> map_of (dict_update d kvs) = map_of d ++ map_of kvs"
  by (simp add: map_of_dict_update map_of_rev_distinct)

lemma keys_dict_update:
  "fst ` set (dict_update d kvs) = fst ` set d \<union> fst ` set kvs"
proof (induction kvs arbitrary: d)
  case Nil
  show ?case by simp
next
  case (Cons p kvs)
  obtain k v where p: "p = (k, v)" by (cases p)
  show ?case
    by (simp only: p dict_update.simps Cons.IH dom_update) auto
qed

lemma distinct_json_load: "distinct (map fst (json_load kvs))"
  by (simp add: json_load_def distinct_dict_update)

lemma map_of_json_load: "map_of (json_load kvs) = map_of (rev kvs)"
  by (simp add: json_load_def map_of_dict_update)

lemma distinct_DEFAULT_MAIN: "distinct (map fst DEFAULT_MAIN_CONFIG)"
  by (simp add: DEFAULT_MAIN_CONFIG_def)

lemma distinct_DEFAULT_SENSITIVE: "distinct (map fst DEFAULT_SENSITIVE_CONFIG)"
  by (simp add: DEFAULT_SENSITIVE_CONFIG_def)

lemma keys_DEFAULT_SENSITIVE: "fst ` set DEFAULT_SENSITIVE_CONFIG = secret_keys"
  by (auto simp: DEFAULT_SENSITIVE_CONFIG_def secret_keys_def)

lemma map_of_load_file:
  "distinct (map fst D) \<Longrightarrow> map_of (load_file D f) = map_of D ++ map_of (rev (doc_items f))"
  by (cases f)
     (simp_all add: load_file_def doc_items_def map_of_dict_update_distinct
        distinct_json_load map_of_json_load)

lemma distinct_load_file:
  "distinct (map fst D) \<Longrightarrow> distinct (map fst (load_file D f))"
  by (cases f) (simp_all add: load_file_def distinct_dict_update)

lemma map_of_load_config:
  "map_of (load_config d) =
     (map_of DEFAULT_MAIN_CONFIG ++ map_of (rev (doc_items (main_file d)))) ++
     (map_of DEFAULT_SENSITIVE_CONFIG ++ map_of (rev (doc_items (sensitive_file d))))"
  by (simp add: load_config_def Let_def map_of_dict_update_distinct distinct_load_file
        map_of_load_file distinct_DEFAULT_MAIN distinct_DEFAULT_SENSITIVE)

lemma distinct_load_config: "distinct (map fst (load_config d))"
  by (simp add: load_config_def Let_def distinct_dict_update)

lemma map_of_split_items:
  "split_items items (m, s) = (m', s') \<Longrightarrow>
     map_of m' = map_of m ++ (map_of (rev items) |` (- secret_keys)) \<and>
     map_of s' = map_of s ++ (map_of (rev items) |` secret_keys)"
proof (induction items arbitrary: m s)
  case Nil
  then show ?case by simp
next
  case (Cons p items)
  obtain k v where p: "p = (k, v)" by (cases p)
  show ?case
  proof (cases "k \<in> secret_keys")
    case True
    with Cons.prems have "split_items items (m, AList.update k v s) = (m', s')"
      by (simp add: p keys_DEFAULT_SENSITIVE)
    from Cons.IH [OF this] True show ?thesis
      by (auto simp: p update_conv' map_add_def restrict_map_def fun_eq_iff split: option.splits)
  next
    case False
    with Cons.prems have "split_items items (AList.update k v m, s) = (m', s')"
      by (simp add: p keys_DEFAULT_SENSITIVE)
    from Cons.IH [OF this] False show ?thesis
      by (auto simp: p update_conv' map_add_def restrict_map_def fun_eq_iff split: option.splits)
  qed
qed

lemma distinct_split_items:
  "split_items items (m, s) = (m', s') \<Longrightarrow> distinct (map fst m) \<Longrightarrow> distinct (map fst s) \<Longrightarrow>
     distinct (map fst m') \<and> distinct (map fst s')"
proof (induction items arbitrary: m s)
  case Nil
  then show ?case by simp
next
  case (Cons p items)
  obtain k v where p: "p = (k, v)" by (cases p)
  show ?case
  proof (cases "k \<in> fst ` set DEFAULT_SENSITIVE_CONFIG")
    case True
    with Cons.prems have "split_items items (m, AList.update k v s) = (m', s')"
      by (simp add: p)
    from Cons.IH [OF this] Cons.prems show ?thesis
      by (simp add: distinct_update)
  next
    case False
    with Cons.prems have "split_items items (AList.update k v m, s) = (m', s')"
      by (simp add: p)
    from Cons.IH [OF this] Cons.prems show ?thesis
      by (simp add: distinct_update)
  qed
qed

lemma map_of_saved:
  assumes "distinct (map fst cfg)"
  shows "map_of (fst (split_items cfg ([], []))) = map_of cfg |` (- secret_keys)"
    and "map_of (snd (split_items cfg ([], []))) = map_of cfg |` secret_keys"
    and "distinct (map fst (fst (split_items cfg ([], []))))"
    and "distinct (map fst (snd (split_items cfg ([], []))))"
proof -
  obtain m s where ms: "split_items cfg ([], []) = (m, s)"
    by (cases "split_items cfg ([], [])")
  from map_of_split_items [OF ms] assms
  show "map_of (fst (split_items cfg ([], []))) = map_of cfg |` (- secret_keys)"
    and "map_of (snd (split_items cfg ([], []))) = map_of cfg |` secret_keys"
    by (simp_all add: ms map_of_rev_distinct)
  from distinct_split_items [OF ms]
  show "distinct (map fst (fst (split_items cfg ([], []))))"
    and "distinct (map fst (snd (split_items cfg ([], []))))"
    by (simp_all add: ms)
qed

lemma save_config_files:
  "main_file (save_config e cfg d) =
     (if main_write_ok e then Doc (fst (split_items cfg ([], []))) else main_file d)"
  "sensitive_file (save_config e cfg d) =
     (if sensitive_write_ok e then Doc (snd (split_items cfg ([], []))) else sensitive_file d)"
  by (simp_all add: save_config_def write_file_def split: prod.splits)

lemma dom_DEFAULT_SENSITIVE: "dom (map_of DEFAULT_SENSITIVE_CONFIG) = secret_keys"
  by (simp add: dom_map_of_conv_image_fst keys_DEFAULT_SENSITIVE)

lemma roundtrip_pointwise:
  fixes Dm Ds G S :: "string \<rightharpoonup> jval"
  assumes K: "dom Ds = K" and C: "C = (Dm ++ G) ++ (Ds ++ S)"
  shows "(Dm ++ (C |` (- K))) ++ (Ds ++ (C |` K)) = C"
proof (rule ext)
  fix k
  show "((Dm ++ (C |` (- K))) ++ (Ds ++ (C |` K))) k = C k"
  proof (cases "k \<in> K")
    case True
    then obtain v where "Ds k = Some v" using K by auto
    then have "C k \<noteq> None" by (auto simp: C map_add_def split: option.splits)
    with True show ?thesis by (auto simp: map_add_def restrict_map_def split: option.splits)
  next
    case False
    then have "Ds k = None" using K by auto
    with False show ?thesis
      by (auto simp: C map_add_def restrict_map_def split: option.splits)
  qed
qed

subsection \<open>Round trip\<close>

text \<open>
  Claim C4. For every pair of configuration files, and so for every pair of well-formed
  general and secret JSON documents: load the configuration, save the loaded mapping (both
  files are written), load again. The second load yields the same mapping as the first:
  the same keys with the same values, which is equality of Python dicts.
\<close>

theorem C4_roundtrip:
  assumes "main_write_ok e" and "sensitive_write_ok e"
  shows "map_of (load_config (save_config e (load_config d) d)) = map_of (load_config d)"
proof -
  let ?cfg = "load_config d"
  have dist: "distinct (map fst ?cfg)" by (rule distinct_load_config)
  have m: "doc_items (main_file (save_config e ?cfg d)) = fst (split_items ?cfg ([], []))"
    and s: "doc_items (sensitive_file (save_config e ?cfg d)) = snd (split_items ?cfg ([], []))"
    using assms by (simp_all add: save_config_files doc_items_def)
  have "map_of (load_config (save_config e ?cfg d)) =
          (map_of DEFAULT_MAIN_CONFIG ++ (map_of ?cfg |` (- secret_keys))) ++
          (map_of DEFAULT_SENSITIVE_CONFIG ++ (map_of ?cfg |` secret_keys))"
    by (simp only: map_of_load_config m s map_of_rev_distinct map_of_saved [OF dist])
  also have "\<dots> = map_of ?cfg"
    by (rule roundtrip_pointwise [OF dom_DEFAULT_SENSITIVE map_of_load_config])
  finally show ?thesis .
qed

theorem C4_witness:
  "main_write_ok se0 \<and> sensitive_write_ok se0 \<and>
   map_of (load_config (save_config se0 (load_config d0) d0)) = map_of (load_config d0)"
  using C4_roundtrip [of se0 d0] by (simp add: se0_def)


subsection \<open>Defaults, precedence and the partition on save\<close>

text \<open>
  Claim C5. In the mapping \<open>load_config\<close> returns, a key that is in neither document
  has its built-in default (and is absent if it has none); a key that is in both documents
  has the value of the secret document. \<open>save_config\<close> of a dict writes two documents:
  the secret one holds exactly the items whose key is \<open>hotkey\<close> or \<open>api_key\<close>, the general
  one exactly the other items.
\<close>

theorem C5_load_merge_save_partition:
  assumes "distinct (map fst cfg)" and "main_write_ok e" and "sensitive_write_ok e"
  shows "(k \<notin> doc_keys (main_file d) \<and> k \<notin> doc_keys (sensitive_file d) \<longrightarrow>
            map_of (load_config d) k =
              (map_of DEFAULT_MAIN_CONFIG ++ map_of DEFAULT_SENSITIVE_CONFIG) k) \<and>
         (k \<in> doc_keys (main_file d) \<and> k \<in> doc_keys (sensitive_file d) \<longrightarrow>
            map_of (load_config d) k = map_of (json_load (doc_items (sensitive_file d))) k) \<and>
         main_file (save_config e cfg d) = Doc (fst (split_items cfg ([], []))) \<and>
         sensitive_file (save_config e cfg d) = Doc (snd (split_items cfg ([], []))) \<and>
         map_of (fst (split_items cfg ([], []))) = map_of cfg |` (- secret_keys) \<and>
         map_of (snd (split_items cfg ([], []))) = map_of cfg |` secret_keys"
proof -
  have none: "\<And>kvs :: (string \<times> jval) list. k \<notin> fst ` set kvs \<Longrightarrow> map_of (rev kvs) k = None"
    by (simp add: map_of_eq_None_iff)
  have missing: "k \<notin> doc_keys (main_file d) \<and> k \<notin> doc_keys (sensitive_file d) \<longrightarrow>
           map_of (load_config d) k =
             (map_of DEFAULT_MAIN_CONFIG ++ map_of DEFAULT_SENSITIVE_CONFIG) k"
    by (auto simp: map_of_load_config doc_keys_def map_add_def dest!: none split: option.splits)
  have some: "\<And>kvs :: (string \<times> jval) list. k \<in> fst ` set kvs \<Longrightarrow> \<exists>v. map_of (rev kvs) k = Some v"
    using map_of_eq_None_iff [of "rev _" k] by fastforce
  have both: "k \<in> doc_keys (main_file d) \<and> k \<in> doc_keys (sensitive_file d) \<longrightarrow>
           map_of (load_config d) k = map_of (json_load (doc_items (sensitive_file d))) k"
    by (auto simp: map_of_load_config map_of_json_load doc_keys_def map_add_def
          dest!: some split: option.splits)
  have saved: "main_file (save_config e cfg d) = Doc (fst (split_items cfg ([], [])))"
      "sensitive_file (save_config e cfg d) = Doc (snd (split_items cfg ([], [])))"
    using assms by (simp_all add: save_config_files)
  from missing both saved map_of_saved(1,2) [OF assms(1)] show ?thesis by blast
qed

theorem C5_witness:
  "distinct (map fst (load_config d1)) \<and> main_write_ok se0 \<and> sensitive_write_ok se0 \<and>
   ''record_timeout'' \<notin> doc_keys (main_file d1) \<and>
   ''record_timeout'' \<notin> doc_keys (sensitive_file d1) \<and>
   map_of (load_config d1) ''record_timeout'' = Some (JFloat 2) \<and>
   ''language'' \<in> doc_keys (main_file d1) \<and> ''language'' \<in> doc_keys (sensitive_file d1) \<and>
   map_of (load_config d1) ''language'' = Some (JStr ''de'') \<and>
   sensitive_file (save_config se0 (load_config d1) d1) =
     Doc [(''hotkey'', JStr ''''), (''api_key'', JStr ''sk-test'')] \<and>
   map_of (snd (split_items (load_config d1) ([], []))) = map_of (load_config d1) |` secret_keys"
proof -
  have h: "distinct (map fst (load_config d1))" "main_write_ok se0" "sensitive_write_ok se0"
    by (simp_all add: distinct_load_config se0_def)
  have keys: "''record_timeout'' \<notin> doc_keys (main_file d1)"
      "''record_timeout'' \<notin> doc_keys (sensitive_file d1)"
      "''language'' \<in> doc_keys (main_file d1)" "''language'' \<in> doc_keys (sensitive_file d1)"
    by (simp_all add: d1_def doc_keys_def doc_items_def)
  have cfg: "load_config d1 =
      [(''model'', JStr ''gpt-4o-transcribe''), (''language'', JStr ''de''),
       (''energy_threshold'', JInt 500), (''record_timeout'', JFloat 2),
       (''phrase_timeout'', JFloat 3), (''hotkey'', JStr ''''), (''api_key'', JStr ''sk-test'')]"
    by (simp add: d1_def load_config_def load_file_def json_load_def
          DEFAULT_MAIN_CONFIG_def DEFAULT_SENSITIVE_CONFIG_def)
  have split: "snd (split_items (load_config d1) ([], [])) =
      [(''hotkey'', JStr ''''), (''api_key'', JStr ''sk-test'')]"
    by (simp add: cfg DEFAULT_SENSITIVE_CONFIG_def)
  from C5_load_merge_save_partition [OF h, of "''record_timeout''" d1]
       C5_load_merge_save_partition [OF h, of "''language''" d1] keys h
  show ?thesis
    by (simp add: split) (simp add: d1_def doc_items_def json_load_def DEFAULT_MAIN_CONFIG_def DEFAULT_SENSITIVE_CONFIG_def)
qed


section \<open>Properties of the Recording Session Controller\<close>

subsection \<open>The example recorders\<close>

lemma cfg_ok_eq: "cfg_ok =
  [(''model'', JStr ''gpt-4o-transcribe''), (''language'', JStr ''de''),
   (''energy_threshold'', JInt 500), (''record_timeout'', JFloat 2),
   (''phrase_timeout'', JFloat 3), (''hotkey'', JStr ''''), (''api_key'', JStr ''sk-test'')]"
  by (simp add: cfg_ok_def d0_def load_config_def load_file_def json_load_def
          DEFAULT_MAIN_CONFIG_def DEFAULT_SENSITIVE_CONFIG_def)

lemma strip_sk_test: "py_strip ''sk-test'' = ''sk-test''"
  by (simp add: py_strip_def isspace_def)

lemma strip_hello: "py_strip '' hello world  '' = ''hello world''"
  by (simp add: py_strip_def isspace_def)

lemma r_idle_eq: "r_idle =
  \<lparr> config = cfg_ok, is_recording = False, audio_data = [], recording_thread = None,
    client = Some ''sk-test'', emitted = [ModelsList ''sk-test''], tmp_files = {} \<rparr>"
  by (simp add: r_idle_def init_recorder_def init_openai_client_def get_or_none_def dict_get_def
        cfg_ok_eq strip_sk_test e_ok_def emit_def)

lemma r_rec_eq: "r_rec =
  \<lparr> config = cfg_ok, is_recording = True, audio_data = [0] # [0.25, 0] # [0.5] # [],
    recording_thread = Some CaptureThread,
    client = Some ''sk-test'',
    emitted = [ModelsList ''sk-test'', StatusUpdate ''Recording...'', RecordingStateChanged True,
               ThreadStart],
    tmp_files = {} \<rparr>"
  by (simp add: r_rec_def r_idle_eq start_recording_def audio_callback_def e_ok_def emit_def)

lemma r_rec_made:
  "remote_call_made e_ok r_rec" "remote_call_made e_remote_fails r_rec"
  "remote_call_made e_unlink_fails r_rec"
  by (simp_all add: remote_call_made_def container_written_def calls_remote_def r_rec_eq
        e_ok_def e_remote_fails_def e_unlink_fails_def dict_get_def cfg_ok_eq)

subsection \<open>Effects\<close>

lemma emit_fields [simp]:
  "config (emit x r) = config r"
  "is_recording (emit x r) = is_recording r"
  "audio_data (emit x r) = audio_data r"
  "recording_thread (emit x r) = recording_thread r"
  "client (emit x r) = client r"
  "tmp_files (emit x r) = tmp_files r"
  "emitted (emit x r) = emitted r @ [x]"
  by (simp_all add: emit_def)

lemma unlink_tmp_fields [simp]:
  "config (unlink_tmp e name r) = config r"
  "is_recording (unlink_tmp e name r) = is_recording r"
  "audio_data (unlink_tmp e name r) = audio_data r"
  "recording_thread (unlink_tmp e name r) = recording_thread r"
  "client (unlink_tmp e name r) = client r"
  "tmp_files (unlink_tmp e name r) = (if os_unlink e then tmp_files r - {name} else tmp_files r)"
  "emitted (unlink_tmp e name r) = emitted r @ [Unlink name]"
  by (simp_all add: unlink_tmp_def Let_def)

lemma before_try_fields [simp]:
  "config (before_try name r) = config r"
  "client (before_try name r) = client r"
  "audio_data (before_try name r) = audio_data r"
  "recording_thread (before_try name r) = recording_thread r"
  "is_recording (before_try name r) = False"
  "tmp_files (before_try name r) = insert name (tmp_files r)"
  "emitted (before_try name r) =
     emitted r @ RecordingStateChanged False #
       (if recording_thread r \<noteq> None then [ThreadJoin] else []) @ [StatusUpdate ''Transcribing...'']"
  by (simp_all add: before_try_def)

lemma since_append: "emitted r' = emitted r @ xs \<Longrightarrow> since r r' = xs"
  by (simp add: since_def)

lemma calls_remote_before_try [simp]:
  "calls_remote e (before_try name r) = calls_remote e r"
  by (simp add: calls_remote_def)

lemma the_call_before_try [simp]: "the_call name' (before_try name r) = the_call name' r"
  by (simp add: the_call_def)

subsection \<open>The try block\<close>

lemma transcribe_no_call:
  "\<not> calls_remote e r \<Longrightarrow> \<exists>msg. transcribe e name r = (Inl msg, r)"
  by (auto simp: transcribe_def calls_remote_def split: option.splits)

lemma transcribe_failure:
  "calls_remote e r \<Longrightarrow> transcriptions_create e = Inl msg \<Longrightarrow>
   transcribe e name r = (Inl msg, emit (the_call name r) r)"
  by (auto simp: transcribe_def calls_remote_def the_call_def)

lemma transcribe_success:
  "calls_remote e r \<Longrightarrow> transcriptions_create e = Inr t \<Longrightarrow>
   transcribe e name r =
     (Inr (py_strip t),
      if py_strip t \<noteq> []
      then emit (StatusUpdate ''Transcription complete'') (emit (the_call name r) r)
      else emit (the_call name r) r)"
  by (auto simp: transcribe_def calls_remote_def the_call_def Let_def)

subsection \<open>The paths of \<open>stop_recording\<close>\<close>

lemma stop_idle: "\<not> is_recording r \<Longrightarrow> stop_recording e r = (Inr [], r)"
  by (simp add: stop_recording_def)

lemma stop_no_audio:
  "is_recording r \<Longrightarrow> audio_data r = [] \<Longrightarrow>
   stop_recording e r =
     (Inr [],
      emit (StatusUpdate ''No audio recorded'')
        (if recording_thread r \<noteq> None
         then emit ThreadJoin (emit (RecordingStateChanged False) (r\<lparr>is_recording := False\<rparr>))
         else emit (RecordingStateChanged False) (r\<lparr>is_recording := False\<rparr>)))"
  by (simp add: stop_recording_def Let_def)

lemma stop_no_file:
  "is_recording r \<Longrightarrow> audio_data r \<noteq> [] \<Longrightarrow> named_temporary_file e = Inl msg \<Longrightarrow>
   stop_recording e r =
     (Inl msg,
      if recording_thread r \<noteq> None
      then emit ThreadJoin (emit (RecordingStateChanged False) (r\<lparr>is_recording := False\<rparr>))
      else emit (RecordingStateChanged False) (r\<lparr>is_recording := False\<rparr>))"
  by (simp add: stop_recording_def Let_def)

lemma stop_not_written:
  "is_recording r \<Longrightarrow> audio_data r \<noteq> [] \<Longrightarrow> named_temporary_file e = Inr name \<Longrightarrow>
   sf_write e = Some msg \<Longrightarrow>
   stop_recording e r =
     (Inl msg,
      (if recording_thread r \<noteq> None
       then emit ThreadJoin (emit (RecordingStateChanged False) (r\<lparr>is_recording := False\<rparr>))
       else emit (RecordingStateChanged False) (r\<lparr>is_recording := False\<rparr>))
      \<lparr>tmp_files := insert name (tmp_files r)\<rparr>)"
  by (simp add: stop_recording_def Let_def)

lemma stop_written:
  assumes "container_written e r"
  shows "stop_recording e r =
     (case transcribe e (tmp_name e) (before_try (tmp_name e) r) of
        (Inr text, r4) \<Rightarrow> (Inr text, unlink_tmp e (tmp_name e) r4)
      | (Inl msg, r4) \<Rightarrow>
          (Inr [],
           unlink_tmp e (tmp_name e) (emit (StatusUpdate (''Error in transcription: '' @ msg)) r4)))"
proof -
  from assms obtain name where "named_temporary_file e = Inr name"
    by (cases "named_temporary_file e") (auto simp: container_written_def)
  with assms show ?thesis
    by (simp add: container_written_def tmp_name_def stop_recording_def before_try_def emit_def
          Let_def split: prod.splits sum.splits)
qed

lemma stop_remote_failure:
  assumes "remote_call_made e r" and "transcriptions_create e = Inl msg"
  shows "stop_recording e r =
     (Inr [],
      unlink_tmp e (tmp_name e)
        (emit (StatusUpdate (''Error in transcription: '' @ msg))
           (emit (the_call (tmp_name e) r) (before_try (tmp_name e) r))))"
  using assms
  by (simp add: remote_call_made_def stop_written transcribe_failure)

lemma stop_remote_success:
  assumes "remote_call_made e r" and "transcriptions_create e = Inr t"
  shows "stop_recording e r =
     (Inr (py_strip t),
      unlink_tmp e (tmp_name e)
        (if py_strip t \<noteq> []
         then emit (StatusUpdate ''Transcription complete'')
                (emit (the_call (tmp_name e) r) (before_try (tmp_name e) r))
         else emit (the_call (tmp_name e) r) (before_try (tmp_name e) r)))"
  using assms
  by (simp add: remote_call_made_def stop_written transcribe_success)

lemma stop_no_call:
  assumes "container_written e r" and "\<not> calls_remote e r"
  shows "\<exists>msg. stop_recording e r =
     (Inr [],
      unlink_tmp e (tmp_name e)
        (emit (StatusUpdate (''Error in transcription: '' @ msg)) (before_try (tmp_name e) r)))"
proof -
  from assms(2) have "\<not> calls_remote e (before_try (tmp_name e) r)" by simp
  from transcribe_no_call [OF this]
  obtain msg where
    "transcribe e (tmp_name e) (before_try (tmp_name e) r) = (Inl msg, before_try (tmp_name e) r)"
    by blast
  then have "stop_recording e r =
     (Inr [],
      unlink_tmp e (tmp_name e)
        (emit (StatusUpdate (''Error in transcription: '' @ msg)) (before_try (tmp_name e) r)))"
    by (simp only: stop_written [OF assms(1)] prod.case sum.case)
  then show ?thesis by (rule exI)
qed


lemma stop_clears_flag: "is_recording (snd (stop_recording e r)) = False"
proof (cases "is_recording r")
  case False
  then show ?thesis by (simp add: stop_idle)
next
  case rec: True
  show ?thesis
  proof (cases "audio_data r = []")
    case True
    with rec show ?thesis by (simp add: stop_no_audio)
  next
    case audio: False
    show ?thesis
    proof (cases "named_temporary_file e")
      case (Inl msg)
      with rec audio show ?thesis by (simp add: stop_no_file)
    next
      case (Inr name)
      show ?thesis
      proof (cases "sf_write e")
        case (Some msg)
        with rec audio Inr show ?thesis by (simp add: stop_not_written)
      next
        case None
        with rec audio Inr have w: "container_written e r"
          by (simp add: container_written_def)
        show ?thesis
        proof (cases "calls_remote e r")
          case False
          from stop_no_call [OF w False] show ?thesis by auto
        next
          case True
          with w have m: "remote_call_made e r" by (simp add: remote_call_made_def)
          show ?thesis
            by (cases "transcriptions_create e")
               (simp_all add: stop_remote_failure [OF m] stop_remote_success [OF m])
        qed
      qed
    qed
  qed
qed


lemma stop_cases [case_names idle no_audio no_file not_written no_call failure success]:
  obtains "\<not> is_recording r"
  | "is_recording r" "audio_data r = []"
  | msg where "is_recording r" "audio_data r \<noteq> []" "named_temporary_file e = Inl msg"
  | name msg where "is_recording r" "audio_data r \<noteq> []" "named_temporary_file e = Inr name"
      "sf_write e = Some msg"
  | "container_written e r" "\<not> calls_remote e r"
  | msg where "remote_call_made e r" "transcriptions_create e = Inl msg"
  | t where "remote_call_made e r" "transcriptions_create e = Inr t"
proof (cases "is_recording r")
  case False
  then show ?thesis by (rule that(1))
next
  case rec: True
  show ?thesis
  proof (cases "audio_data r = []")
    case True
    with rec show ?thesis by (rule that(2))
  next
    case audio: False
    show ?thesis
    proof (cases "named_temporary_file e")
      case (Inl msg)
      with rec audio show ?thesis by (rule that(3))
    next
      case (Inr name)
      show ?thesis
      proof (cases "sf_write e")
        case (Some msg)
        with rec audio Inr show ?thesis by (rule that(4))
      next
        case None
        with rec audio Inr have w: "container_written e r"
          by (simp add: container_written_def)
        show ?thesis
        proof (cases "calls_remote e r")
          case False
          with w show ?thesis by (rule that(5))
        next
          case True
          with w have m: "remote_call_made e r" by (simp add: remote_call_made_def)
          show ?thesis
          proof (cases "transcriptions_create e")
            case (Inl msg)
            with m show ?thesis by (rule that(6))
          next
            case (Inr t)
            with m show ?thesis by (rule that(7))
          qed
        qed
      qed
    qed
  qed
qed

lemma statuses_append [simp]: "statuses (xs @ ys) = statuses xs @ statuses ys"
  by (induction xs rule: statuses.induct) simp_all

lemma remote_calls_append [simp]: "remote_calls (xs @ ys) = remote_calls xs @ remote_calls ys"
  by (induction xs rule: remote_calls.induct) simp_all

lemma unlinks_append [simp]: "unlinks (xs @ ys) = unlinks xs @ unlinks ys"
  by (induction xs rule: unlinks.induct) simp_all

lemma the_call_simps [simp]:
  "remote_calls [the_call name r] = [the_call name r]"
  "statuses [the_call name r] = []"
  "unlinks [the_call name r] = []"
  "remote_calls (the_call name r # xs) = the_call name r # remote_calls xs"
  "statuses (the_call name r # xs) = statuses xs"
  "unlinks (the_call name r # xs) = unlinks xs"
  by (simp_all add: the_call_def)

text \<open>What \<open>stop_recording\<close> emits on each path that returns.\<close>

lemma since_stop_failure:
  assumes "remote_call_made e r" and "transcriptions_create e = Inl msg"
  shows "since r (snd (stop_recording e r)) =
     RecordingStateChanged False # (if recording_thread r \<noteq> None then [ThreadJoin] else []) @
     [StatusUpdate ''Transcribing...'', the_call (tmp_name e) r,
      StatusUpdate (''Error in transcription: '' @ msg), Unlink (tmp_name e)]"
  by (rule since_append) (simp add: stop_remote_failure [OF assms])

lemma since_stop_success:
  assumes "remote_call_made e r" and "transcriptions_create e = Inr t"
  shows "since r (snd (stop_recording e r)) =
     RecordingStateChanged False # (if recording_thread r \<noteq> None then [ThreadJoin] else []) @
     [StatusUpdate ''Transcribing...'', the_call (tmp_name e) r] @
     (if py_strip t \<noteq> [] then [StatusUpdate ''Transcription complete''] else []) @
     [Unlink (tmp_name e)]"
  by (rule since_append) (simp add: stop_remote_success [OF assms])

lemma since_stop_no_call:
  assumes "container_written e r" and "\<not> calls_remote e r"
  shows "\<exists>msg. since r (snd (stop_recording e r)) =
     RecordingStateChanged False # (if recording_thread r \<noteq> None then [ThreadJoin] else []) @
     [StatusUpdate ''Transcribing...'',
      StatusUpdate (''Error in transcription: '' @ msg), Unlink (tmp_name e)]"
proof -
  from stop_no_call [OF assms] obtain msg where
    "stop_recording e r =
     (Inr [],
      unlink_tmp e (tmp_name e)
        (emit (StatusUpdate (''Error in transcription: '' @ msg)) (before_try (tmp_name e) r)))"
    by blast
  then have "since r (snd (stop_recording e r)) =
     RecordingStateChanged False # (if recording_thread r \<noteq> None then [ThreadJoin] else []) @
     [StatusUpdate ''Transcribing...'',
      StatusUpdate (''Error in transcription: '' @ msg), Unlink (tmp_name e)]"
    by (intro since_append) simp
  then show ?thesis by (rule exI)
qed

lemma since_stop_other:
  "\<not> is_recording r \<Longrightarrow> since r (snd (stop_recording e r)) = []"
  "is_recording r \<Longrightarrow> audio_data r = [] \<Longrightarrow>
     since r (snd (stop_recording e r)) =
       RecordingStateChanged False # (if recording_thread r \<noteq> None then [ThreadJoin] else []) @
       [StatusUpdate ''No audio recorded'']"
  "is_recording r \<Longrightarrow> audio_data r \<noteq> [] \<Longrightarrow> named_temporary_file e = Inl msg \<Longrightarrow>
     since r (snd (stop_recording e r)) =
       RecordingStateChanged False # (if recording_thread r \<noteq> None then [ThreadJoin] else [])"
  "is_recording r \<Longrightarrow> audio_data r \<noteq> [] \<Longrightarrow> named_temporary_file e = Inr name \<Longrightarrow>
   sf_write e = Some msg \<Longrightarrow>
     since r (snd (stop_recording e r)) =
       RecordingStateChanged False # (if recording_thread r \<noteq> None then [ThreadJoin] else [])"
  by (rule since_append, simp add: stop_idle stop_no_audio stop_no_file stop_not_written)+

lemma remote_calls_made_iff:
  "remote_calls (since r (snd (stop_recording e r))) \<noteq> [] \<longleftrightarrow> remote_call_made e r"
proof (cases rule: stop_cases [where r = r and e = e])
  case no_call
  from since_stop_no_call [OF no_call] no_call show ?thesis
    by (auto simp: remote_call_made_def)
qed (simp_all add: since_stop_other since_stop_failure since_stop_success remote_call_made_def
       container_written_def)

lemma remote_calls_at_most_one:
  "length (remote_calls (since r (snd (stop_recording e r)))) \<le> 1"
proof (cases rule: stop_cases [where r = r and e = e])
  case no_call
  from since_stop_no_call [OF no_call] show ?thesis by auto
qed (simp_all add: since_stop_other since_stop_failure since_stop_success)


subsection \<open>Stripping\<close>

lemma strip_split:
  "dropWhile isspace t = py_strip t @ rev (takeWhile isspace (rev (dropWhile isspace t)))"
proof -
  let ?u = "dropWhile isspace t"
  have "rev (takeWhile isspace (rev ?u) @ dropWhile isspace (rev ?u)) = ?u"
    by (simp only: takeWhile_dropWhile_id rev_rev_ident)
  then show ?thesis by (simp only: rev_append py_strip_def)
qed

lemma py_strip_decomp:
  "\<exists>pre post. t = pre @ py_strip t @ post \<and> (\<forall>c\<in>set pre. isspace c) \<and> (\<forall>c\<in>set post. isspace c)"
proof -
  let ?pre = "takeWhile isspace t"
  let ?post = "rev (takeWhile isspace (rev (dropWhile isspace t)))"
  have "t = ?pre @ dropWhile isspace t" by simp
  also have "dropWhile isspace t = py_strip t @ ?post" by (rule strip_split)
  finally have "t = ?pre @ py_strip t @ ?post" .
  moreover have "\<forall>c\<in>set ?pre. isspace c" by (auto dest: set_takeWhileD)
  moreover have "\<forall>c\<in>set ?post. isspace c" by (auto dest: set_takeWhileD)
  ultimately show ?thesis by blast
qed

lemma py_strip_ends:
  assumes "py_strip t \<noteq> []"
  shows "\<not> isspace (hd (py_strip t))" and "\<not> isspace (last (py_strip t))"
proof -
  let ?u = "dropWhile isspace t"
  let ?v = "dropWhile isspace (rev ?u)"
  from assms have v: "?v \<noteq> []" by (simp add: py_strip_def)
  then have "\<not> isspace (hd ?v)" by (rule hd_dropWhile)
  with v show "\<not> isspace (last (py_strip t))" by (simp add: py_strip_def last_rev)
  have u: "?u \<noteq> []"
  proof
    assume "?u = []"
    then have "?v = []" by (simp only: rev.simps dropWhile.simps)
    with v show False ..
  qed
  from assms have "hd (py_strip t @ rev (takeWhile isspace (rev ?u))) = hd (py_strip t)"
    by (rule hd_append2)
  then have "hd (py_strip t) = hd ?u" by (simp only: strip_split [symmetric])
  with hd_dropWhile [OF u] show "\<not> isspace (hd (py_strip t))" by simp
qed

lemma py_strip_Nil [simp]: "py_strip [] = []"
  by (simp add: py_strip_def)

lemma contains_suffix: "contains s (p @ s)"
proof (induction p)
  case Nil
  show ?case by (cases s) simp_all
next
  case (Cons a p)
  then show ?case by simp
qed

subsection \<open>Claims about \<open>start_recording\<close> and \<open>stop_recording\<close>\<close>

text \<open>
  Claim C9. \<open>start_recording\<close> on a recorder that is recording returns \<open>False\<close> and leaves
  the recorder as it was: the flag, the chunk buffer and the thread handle are unchanged, and
  nothing is emitted.
\<close>

theorem C9_start_while_recording_noop:
  assumes "is_recording r"
  shows "start_recording e r = (False, r) \<and>
         is_recording (snd (start_recording e r)) = is_recording r \<and>
         audio_data (snd (start_recording e r)) = audio_data r \<and>
         recording_thread (snd (start_recording e r)) = recording_thread r \<and>
         since r (snd (start_recording e r)) = []"
  using assms by (simp add: start_recording_def since_def)

theorem C9_witness:
  "is_recording r_rec \<and> start_recording e_ok r_rec = (False, r_rec) \<and>
   since r_rec (snd (start_recording e_ok r_rec)) = []"
proof -
  have h: "is_recording r_rec" by (simp add: r_rec_eq)
  from C9_start_while_recording_noop [OF h, of e_ok] h show ?thesis by blast
qed

text \<open>
  Claim C6. When \<open>stop_recording\<close> makes the remote call and the service answers with the
  text \<open>t\<close>, the method returns \<open>t\<close> stripped: \<open>t\<close> is the returned string between two runs of
  whitespace, and the returned string neither starts nor ends with whitespace.
\<close>

theorem C6_stop_returns_stripped_text:
  assumes "remote_call_made e r" and "transcriptions_create e = Inr t"
  shows "fst (stop_recording e r) = Inr (py_strip t) \<and>
         (\<exists>pre post. t = pre @ py_strip t @ post \<and>
            (\<forall>c\<in>set pre. isspace c) \<and> (\<forall>c\<in>set post. isspace c)) \<and>
         (py_strip t \<noteq> [] \<longrightarrow>
            \<not> isspace (hd (py_strip t)) \<and> \<not> isspace (last (py_strip t)))"
  using py_strip_decomp [of t] py_strip_ends [of t]
  by (simp add: stop_remote_success [OF assms])

theorem C6_witness:
  "remote_call_made e_ok r_rec \<and>
   transcriptions_create e_ok = Inr '' hello world  '' \<and>
   fst (stop_recording e_ok r_rec) = Inr ''hello world''"
proof -
  have t: "transcriptions_create e_ok = Inr '' hello world  ''"
    by (simp add: e_ok_def)
  from C6_stop_returns_stripped_text [OF r_rec_made(1) t] r_rec_made(1) t
  show ?thesis by (simp add: strip_hello)
qed

lemma r_started_eq: "r_started =
  \<lparr> config = cfg_ok, is_recording = True, audio_data = [],
    recording_thread = Some CaptureThread,
    client = Some ''sk-test'',
    emitted = [ModelsList ''sk-test'', StatusUpdate ''Recording...'', RecordingStateChanged True,
               ThreadStart],
    tmp_files = {} \<rparr>"
  by (simp add: r_started_def r_idle_eq start_recording_def e_ok_def emit_def)

text \<open>
  Claim C7, as stated: after \<open>stop_recording\<close> on a session with at least one chunk the
  temporary file is gone. It is not when \<open>os.unlink\<close> raises: the \<open>finally\<close> branch passes
  over the exception and the file stays.
\<close>

theorem C7_counterexample:
  "is_recording r_rec \<and> audio_data r_rec \<noteq> [] \<and>
   named_temporary_file e_unlink_fails = Inr ''/tmp/tmpk3x9.wav'' \<and>
   fst (stop_recording e_unlink_fails r_rec) = Inr ''hello world'' \<and>
   ''/tmp/tmpk3x9.wav'' \<in> tmp_files (snd (stop_recording e_unlink_fails r_rec))"
proof -
  have t: "transcriptions_create e_unlink_fails = Inr '' hello world  ''"
    and u: "\<not> os_unlink e_unlink_fails"
    and n: "named_temporary_file e_unlink_fails = Inr ''/tmp/tmpk3x9.wav''"
    by (simp_all add: e_unlink_fails_def e_ok_def)
  from n have "tmp_name e_unlink_fails = ''/tmp/tmpk3x9.wav''" by (simp add: tmp_name_def)
  with u n show ?thesis
    by (simp add: stop_remote_success [OF r_rec_made(3) t] strip_hello) (simp add: r_rec_eq)
qed

lemma written_cases [consumes 1, case_names no_call failure success]:
  assumes "container_written e r"
  obtains "\<not> calls_remote e r"
  | msg where "remote_call_made e r" "transcriptions_create e = Inl msg"
  | t where "remote_call_made e r" "transcriptions_create e = Inr t"
proof (cases "calls_remote e r")
  case False
  then show ?thesis by (rule that(1))
next
  case True
  with assms have m: "remote_call_made e r" by (simp add: remote_call_made_def)
  show ?thesis
  proof (cases "transcriptions_create e")
    case (Inl msg)
    with m show ?thesis by (rule that(2))
  next
    case (Inr t)
    with m show ?thesis by (rule that(3))
  qed
qed

lemma tmp_files_stop_written:
  assumes "container_written e r"
  shows "tmp_files (snd (stop_recording e r)) =
     (if os_unlink e then tmp_files r - {tmp_name e} else insert (tmp_name e) (tmp_files r))"
  using assms
proof (cases rule: written_cases)
  case no_call
  from stop_no_call [OF assms no_call] show ?thesis by auto
next
  case (failure msg)
  then show ?thesis by (simp add: stop_remote_failure)
next
  case (success t)
  then show ?thesis by (simp add: stop_remote_success)
qed

lemma unlinks_stop_written:
  assumes "container_written e r"
  shows "unlinks (since r (snd (stop_recording e r))) = [tmp_name e] \<and>
         last (since r (snd (stop_recording e r))) = Unlink (tmp_name e)"
  using assms
proof (cases rule: written_cases)
  case no_call
  from since_stop_no_call [OF assms no_call] show ?thesis by auto
next
  case (failure msg)
  then show ?thesis by (simp add: since_stop_failure)
next
  case (success t)
  then show ?thesis by (simp add: since_stop_success)
qed

text \<open>
  Claim C7, amended. When the temporary file was created and written, \<open>stop_recording\<close>
  ends with one call of \<open>os.unlink\<close> on that file, whether the remote call succeeds, fails
  or is not reached. The file no longer exists if that call succeeds, and still exists if
  it raises.
\<close>

theorem C7_tmp_file_unlinked_once:
  assumes "container_written e r"
  shows "unlinks (since r (snd (stop_recording e r))) = [tmp_name e] \<and>
         last (since r (snd (stop_recording e r))) = Unlink (tmp_name e) \<and>
         (os_unlink e \<longrightarrow> tmp_name e \<notin> tmp_files (snd (stop_recording e r))) \<and>
         (\<not> os_unlink e \<longrightarrow> tmp_name e \<in> tmp_files (snd (stop_recording e r)))"
  using unlinks_stop_written [OF assms] by (simp add: tmp_files_stop_written [OF assms])

theorem C7_witness:
  "container_written e_ok r_rec \<and> container_written e_remote_fails r_rec \<and>
   os_unlink e_ok \<and> os_unlink e_remote_fails \<and>
   tmp_name e_ok = ''/tmp/tmpk3x9.wav'' \<and> tmp_name e_remote_fails = ''/tmp/tmpk3x9.wav'' \<and>
   unlinks (since r_rec (snd (stop_recording e_ok r_rec))) = [''/tmp/tmpk3x9.wav''] \<and>
   ''/tmp/tmpk3x9.wav'' \<notin> tmp_files (snd (stop_recording e_ok r_rec)) \<and>
   unlinks (since r_rec (snd (stop_recording e_remote_fails r_rec))) = [''/tmp/tmpk3x9.wav''] \<and>
   ''/tmp/tmpk3x9.wav'' \<notin> tmp_files (snd (stop_recording e_remote_fails r_rec))"
proof -
  have w: "container_written e_ok r_rec" "container_written e_remote_fails r_rec"
    using r_rec_made by (simp_all add: remote_call_made_def)
  have u: "os_unlink e_ok" "os_unlink e_remote_fails"
    and n: "tmp_name e_ok = ''/tmp/tmpk3x9.wav''" "tmp_name e_remote_fails = ''/tmp/tmpk3x9.wav''"
    by (simp_all add: e_ok_def e_remote_fails_def tmp_name_def)
  from C7_tmp_file_unlinked_once [OF w(1)] C7_tmp_file_unlinked_once [OF w(2)] w u n
  show ?thesis by simp
qed


lemma stop_returns_when_written:
  assumes "container_written e r"
  shows "fst (stop_recording e r) =
     Inr (if calls_remote e r
          then (case transcriptions_create e of Inl msg \<Rightarrow> [] | Inr t \<Rightarrow> py_strip t)
          else [])"
  using assms
proof (cases rule: written_cases)
  case no_call
  from stop_no_call [OF assms no_call] no_call show ?thesis by auto
next
  case (failure msg)
  then show ?thesis by (simp add: stop_remote_failure remote_call_made_def)
next
  case (success t)
  then show ?thesis by (simp add: stop_remote_success remote_call_made_def)
qed

text \<open>
  Claim C2, as stated, fails in two places. First, not every active session makes
  \<open>stop_recording\<close> return: the temporary file is created and written before the \<open>try\<close>
  begins, and an exception there (here \<open>sf.write\<close> on a full disk) leaves the method, with
  no status message. Second, when the remote call fails, \<open>"Transcribing..."\<close> has already
  been emitted before the message that reports the failure, so a reason that occurs in
  \<open>"Transcribing..."\<close> (here the empty reason of an exception without arguments) is
  contained in two status messages, not in exactly one.
\<close>

theorem C2_counterexample:
  "is_recording r_rec \<and>
   fst (stop_recording e_disk_full r_rec) = Inl ''disk full'' \<and>
   statuses (since r_rec (snd (stop_recording e_disk_full r_rec))) = [] \<and>
   remote_call_made e_no_reason r_rec \<and>
   transcriptions_create e_no_reason = Inl [] \<and>
   fst (stop_recording e_no_reason r_rec) = Inr [] \<and>
   length (filter (contains [])
             (statuses (since r_rec (snd (stop_recording e_no_reason r_rec))))) = 2"
proof -
  have r: "is_recording r_rec" "audio_data r_rec \<noteq> []"
    by (simp_all add: r_rec_eq)
  have n: "named_temporary_file e_disk_full = Inr ''/tmp/tmpk3x9.wav''"
    and w: "sf_write e_disk_full = Some ''disk full''"
    by (simp_all add: e_disk_full_def e_ok_def)
  have 1: "fst (stop_recording e_disk_full r_rec) = Inl ''disk full''"
    by (simp add: stop_not_written [OF r n w])
  have 2: "statuses (since r_rec (snd (stop_recording e_disk_full r_rec))) = []"
    by (simp add: since_stop_other(4) [OF r n w])
  have m: "remote_call_made e_no_reason r_rec"
    by (simp add: remote_call_made_def container_written_def calls_remote_def r_rec_eq
          e_no_reason_def e_ok_def dict_get_def cfg_ok_eq)
  have f: "transcriptions_create e_no_reason = Inl []"
    by (simp add: e_no_reason_def)
  have 3: "fst (stop_recording e_no_reason r_rec) = Inr []"
    by (simp add: stop_remote_failure [OF m f])
  have 4: "length (filter (contains [])
             (statuses (since r_rec (snd (stop_recording e_no_reason r_rec))))) = 2"
    by (simp add: since_stop_failure [OF m f])
  from r(1) 1 2 m f 3 4 show ?thesis by blast
qed

text \<open>
  Claim C2, amended. For an active session that captured no audio, or whose temporary
  file was created and written, \<open>stop_recording\<close> returns and does not raise: the
  transcript when the remote call is made and succeeds, the empty string otherwise (no
  audio, a failing remote call, or a \<open>try\<close> block that fails before the call). When the
  remote call is made and fails with reason \<open>msg\<close>, the status messages of the call are
  \<open>"Transcribing..."\<close> followed by \<open>"Error in transcription: "\<close> with the reason appended:
  exactly one message reports the failure. The remote service is called once then, and
  never more than once.
\<close>

theorem C2_stop_returns_transcript_or_empty:
  assumes "is_recording r" and "audio_data r = [] \<or> container_written e r"
  shows "fst (stop_recording e r) =
           Inr (if remote_call_made e r
                then (case transcriptions_create e of Inl msg \<Rightarrow> [] | Inr t \<Rightarrow> py_strip t)
                else []) \<and>
         (remote_call_made e r \<and> transcriptions_create e = Inl msg \<longrightarrow>
            statuses (since r (snd (stop_recording e r))) =
              [''Transcribing...'', ''Error in transcription: '' @ msg] \<and>
            length (filter (\<lambda>m. m = ''Error in transcription: '' @ msg)
                      (statuses (since r (snd (stop_recording e r))))) = 1 \<and>
            length (remote_calls (since r (snd (stop_recording e r)))) = 1) \<and>
         length (remote_calls (since r (snd (stop_recording e r)))) \<le> 1"
proof -
  have ret: "fst (stop_recording e r) =
           Inr (if remote_call_made e r
                then (case transcriptions_create e of Inl msg \<Rightarrow> [] | Inr t \<Rightarrow> py_strip t)
                else [])"
  proof (cases "audio_data r = []")
    case True
    with assms(1) show ?thesis
      by (simp add: stop_no_audio remote_call_made_def container_written_def)
  next
    case False
    with assms(2) have w: "container_written e r" by simp
    then show ?thesis by (simp add: stop_returns_when_written remote_call_made_def)
  qed
  have fail: "remote_call_made e r \<and> transcriptions_create e = Inl msg \<longrightarrow>
            statuses (since r (snd (stop_recording e r))) =
              [''Transcribing...'', ''Error in transcription: '' @ msg] \<and>
            length (filter (\<lambda>m. m = ''Error in transcription: '' @ msg)
                      (statuses (since r (snd (stop_recording e r))))) = 1 \<and>
            length (remote_calls (since r (snd (stop_recording e r)))) = 1"
    by (simp add: since_stop_failure)
  from ret fail remote_calls_at_most_one [of r e] show ?thesis by blast
qed

theorem C2_witness:
  "is_recording r_started \<and> audio_data r_started = [] \<and>
   fst (stop_recording e_ok r_started) = Inr [] \<and>
   is_recording r_rec \<and> container_written e_ok r_rec \<and> remote_call_made e_ok r_rec \<and>
   fst (stop_recording e_ok r_rec) = Inr ''hello world'' \<and>
   container_written e_remote_fails r_rec \<and> remote_call_made e_remote_fails r_rec \<and>
   transcriptions_create e_remote_fails = Inl ''Connection error.'' \<and>
   fst (stop_recording e_remote_fails r_rec) = Inr [] \<and>
   statuses (since r_rec (snd (stop_recording e_remote_fails r_rec))) =
     [''Transcribing...'', ''Error in transcription: Connection error.''] \<and>
   length (remote_calls (since r_rec (snd (stop_recording e_remote_fails r_rec)))) = 1"
proof -
  have s: "is_recording r_started" "audio_data r_started = []"
    by (simp_all add: r_started_eq)
  have r: "is_recording r_rec" by (simp add: r_rec_eq)
  have w: "container_written e_ok r_rec" "container_written e_remote_fails r_rec"
    using r_rec_made by (simp_all add: remote_call_made_def)
  have t: "transcriptions_create e_ok = Inr '' hello world  ''"
    by (simp add: e_ok_def)
  have f: "transcriptions_create e_remote_fails = Inl ''Connection error.''"
    by (simp add: e_remote_fails_def)
  have ns: "\<not> remote_call_made e_ok r_started"
    using s(2) by (simp add: remote_call_made_def container_written_def)
  from C2_stop_returns_transcript_or_empty [OF s(1), of e_ok] s(2) ns
  have 1: "fst (stop_recording e_ok r_started) = Inr []" by simp
  from C2_stop_returns_transcript_or_empty [OF r, of e_ok] w(1) r_rec_made(1) t
  have 2: "fst (stop_recording e_ok r_rec) = Inr ''hello world''"
    by (simp add: strip_hello)
  from C2_stop_returns_transcript_or_empty [OF r, of e_remote_fails "''Connection error.''"]
       w(2) r_rec_made(2) f
  have 3: "fst (stop_recording e_remote_fails r_rec) = Inr [] \<and>
     statuses (since r_rec (snd (stop_recording e_remote_fails r_rec))) =
       [''Transcribing...'', ''Error in transcription: Connection error.''] \<and>
     length (remote_calls (since r_rec (snd (stop_recording e_remote_fails r_rec)))) = 1"
    by simp
  from 1 2 3 s r w r_rec_made(1,2) f show ?thesis by blast
qed

section \<open>Properties of the Hotkey Bridge\<close>

subsection \<open>Text injection\<close>

lemma stop_failure_result:
  assumes "\<not> (remote_call_made e r \<and> \<not> isl (transcriptions_create e))"
  shows "fst (stop_recording e r) = Inr [] \<or> (\<exists>msg. fst (stop_recording e r) = Inl msg)"
proof (cases rule: stop_cases [where r = r and e = e])
  case no_call
  from stop_no_call [OF no_call] show ?thesis by auto
next
  case (success t)
  with assms show ?thesis by simp
qed (simp_all add: stop_idle stop_no_audio stop_no_file stop_not_written stop_remote_failure)

lemma toggle_stop:
  assumes "app_is_recording a = Some True"
  shows "toggle_recording e a =
     (case stop_recording e (app_recorder a) of
        (Inl msg, r) \<Rightarrow> a\<lparr>app_is_recording := Some False, app_recorder := r\<rparr>
      | (Inr text, r) \<Rightarrow>
          if py_strip text = [] then a\<lparr>app_is_recording := Some False, app_recorder := r\<rparr>
          else a\<lparr>app_is_recording := Some False, app_recorder := r, written := written a @ [text]\<rparr>)"
proof -
  have "\<And>text. (text \<noteq> [] \<and> py_strip text \<noteq> []) = (py_strip text \<noteq> [])" by auto
  with assms show ?thesis
    by (simp add: toggle_recording_def Let_def split: prod.splits sum.splits)
qed

text \<open>
  Claim C10. When \<open>toggle_recording\<close> stops a session, the texts passed to \<open>keyboard.write\<close>
  grow by the string \<open>stop_recording\<close> returned if that string is not empty after stripping,
  and by nothing otherwise: not when the string is empty or only whitespace, not when
  \<open>stop_recording\<close> raised. Every path of \<open>stop_recording\<close> other than a remote call that was
  made and succeeded leaves them as they were.
\<close>

theorem C10_injection_only_of_nonblank_transcript:
  assumes "app_is_recording a = Some True"
  shows "written (toggle_recording e a) =
           written a @
             (case fst (stop_recording e (app_recorder a)) of
                Inl msg \<Rightarrow> []
              | Inr text \<Rightarrow> if py_strip text = [] then [] else [text]) \<and>
         (\<not> (remote_call_made e (app_recorder a) \<and> \<not> isl (transcriptions_create e)) \<longrightarrow>
            written (toggle_recording e a) = written a)"
proof -
  have w: "written (toggle_recording e a) =
           written a @
             (case fst (stop_recording e (app_recorder a)) of
                Inl msg \<Rightarrow> []
              | Inr text \<Rightarrow> if py_strip text = [] then [] else [text])"
    by (simp add: toggle_stop [OF assms] split: prod.splits sum.splits)
  have "written (toggle_recording e a) = written a"
    if "\<not> (remote_call_made e (app_recorder a) \<and> \<not> isl (transcriptions_create e))"
    using stop_failure_result [OF that] by (auto simp: w)
  with w show ?thesis by blast
qed

theorem C10_witness:
  "app_is_recording a_rec = Some True \<and>
   written (toggle_recording e_ok a_rec) = [''hello world''] \<and>
   \<not> (remote_call_made e_remote_fails (app_recorder a_rec) \<and>
       \<not> isl (transcriptions_create e_remote_fails)) \<and>
   written (toggle_recording e_remote_fails a_rec) = []"
proof -
  have h: "app_is_recording a_rec = Some True" and r: "app_recorder a_rec = r_rec"
    and w: "written a_rec = []"
    by (simp_all add: a_rec_def)
  have t: "transcriptions_create e_ok = Inr '' hello world  ''"
    by (simp add: e_ok_def)
  have f: "transcriptions_create e_remote_fails = Inl ''Connection error.''"
    by (simp add: e_remote_fails_def)
  have s: "fst (stop_recording e_ok r_rec) = Inr ''hello world''"
    by (simp add: stop_remote_success [OF r_rec_made(1) t] strip_hello)
  have p: "py_strip ''hello world'' = ''hello world''"
    by (simp add: py_strip_def isspace_def)
  from C10_injection_only_of_nonblank_transcript [OF h, of e_ok]
  have 1: "written (toggle_recording e_ok a_rec) = [''hello world'']"
    by (simp add: r w s p)
  have nf: "\<not> (remote_call_made e_remote_fails (app_recorder a_rec) \<and>
       \<not> isl (transcriptions_create e_remote_fails))"
    by (simp add: f)
  from C10_injection_only_of_nonblank_transcript [OF h, of e_remote_fails] nf
  have "written (toggle_recording e_remote_fails a_rec) = written a_rec" by blast
  with 1 h nf w show ?thesis by simp
qed

subsection \<open>Registration\<close>

lemma hotkeys_register_hotkey:
  "hotkeys (register_hotkey accepts se a) =
     (if accepts (combination_of (app_config a)) then [combination_of (app_config a)] else [])"
  by (simp add: register_hotkey_def combination_of_def Let_def split: prod.splits)

lemma hotkeys_reregister:
  "hotkeys (reregister accepts se cfg a) =
     (if accepts (combination_of cfg) then [combination_of cfg] else [])"
  by (simp add: reregister_def hotkeys_register_hotkey)

lemma hotkeys_fold_reregister:
  assumes "cfgs \<noteq> []"
  shows "hotkeys (fold (reregister accepts se) cfgs a) =
     (if accepts (combination_of (last cfgs)) then [combination_of (last cfgs)] else [])"
proof -
  from assms have "cfgs = butlast cfgs @ [last cfgs]" by simp
  then have "fold (reregister accepts se) cfgs a =
      reregister accepts se (last cfgs) (fold (reregister accepts se) (butlast cfgs) a)"
    by (metis fold_append fold_simps comp_apply)
  then show ?thesis by (simp only: hotkeys_reregister)
qed

text \<open>
  Claim C8, as stated: after any sequence of re-registrations exactly one binding is
  active. It is not when the library cannot parse the last combination:
  \<open>keyboard.add_hotkey\<close> raises after \<open>keyboard.unhook_all\<close> has run, the \<open>except\<close> branch
  prints the error, and no binding is left.
\<close>

theorem C8_counterexample:
  "length (hotkeys (fold (reregister known_hotkeys se0) [cfg_f9, cfg_typo] a_rec)) \<noteq> 1"
  by (simp add: hotkeys_reregister combination_of_def get_or_none_def dict_get_def
        cfg_typo_def cfg_ok_eq update_conv' known_hotkeys_def)

text \<open>
  Claim C8, amended. \<open>register_hotkey\<close> first unregisters every hotkey and then binds the
  configured combination (\<open>ctrl+alt+d\<close> when none is configured) if the library accepts it.
  So after any sequence of one or more re-registrations the bindings are the last
  combination alone if the library accepts it, and none if it does not: never more than one.
\<close>

theorem C8_at_most_one_binding:
  assumes "cfgs \<noteq> []"
  shows "hotkeys (fold (reregister accepts se) cfgs a) =
           (if accepts (combination_of (last cfgs)) then [combination_of (last cfgs)] else []) \<and>
         length (hotkeys (fold (reregister accepts se) cfgs a)) \<le> 1 \<and>
         (accepts (combination_of (last cfgs)) \<longrightarrow>
            length (hotkeys (fold (reregister accepts se) cfgs a)) = 1)"
  by (simp add: hotkeys_fold_reregister [OF assms])

theorem C8_witness:
  "[cfg_typo, cfg_ok, cfg_f9] \<noteq> [] \<and> known_hotkeys (combination_of cfg_f9) \<and>
   hotkeys (fold (reregister known_hotkeys se0) [cfg_typo, cfg_ok, cfg_f9] a_rec) = [JStr ''f9''] \<and>
   length (hotkeys (fold (reregister known_hotkeys se0) [cfg_typo, cfg_ok, cfg_f9] a_rec)) = 1"
proof -
  have c: "combination_of cfg_f9 = JStr ''f9''"
    by (simp add: combination_of_def get_or_none_def dict_get_def cfg_f9_def cfg_ok_eq update_conv')
  have k: "known_hotkeys (JStr ''f9'')" by (simp add: known_hotkeys_def)
  from C8_at_most_one_binding [of "[cfg_typo, cfg_ok, cfg_f9]" known_hotkeys se0 a_rec] c k
  show ?thesis by simp
qed

section \<open>Properties of the session state machine\<close>

lemma no_valid_key_frame [simp]:
  "fst (no_valid_key r) = False"
  "is_recording (snd (no_valid_key r)) = is_recording r"
  "audio_data (snd (no_valid_key r)) = audio_data r"
  "recording_thread (snd (no_valid_key r)) = recording_thread r"
  "tmp_files (snd (no_valid_key r)) = tmp_files r"
  "config (snd (no_valid_key r)) = config r"
  "client (snd (no_valid_key r)) = client r"
  by (simp_all add: no_valid_key_def)

lemma testing_failed_frame [simp]:
  "fst (testing_failed msg r) = False"
  "is_recording (snd (testing_failed msg r)) = is_recording r"
  "audio_data (snd (testing_failed msg r)) = audio_data r"
  "recording_thread (snd (testing_failed msg r)) = recording_thread r"
  "tmp_files (snd (testing_failed msg r)) = tmp_files r"
  "config (snd (testing_failed msg r)) = config r"
  "client (snd (testing_failed msg r)) = None"
  by (simp_all add: testing_failed_def)

lemma initializing_failed_frame [simp]:
  "fst (initializing_failed msg r) = False"
  "is_recording (snd (initializing_failed msg r)) = is_recording r"
  "audio_data (snd (initializing_failed msg r)) = audio_data r"
  "recording_thread (snd (initializing_failed msg r)) = recording_thread r"
  "tmp_files (snd (initializing_failed msg r)) = tmp_files r"
  "config (snd (initializing_failed msg r)) = config r"
  "client (snd (initializing_failed msg r)) = None"
  by (simp_all add: initializing_failed_def)

lemma init_openai_client_frame:
  "is_recording (snd (init_openai_client e r)) = is_recording r"
  "audio_data (snd (init_openai_client e r)) = audio_data r"
  "recording_thread (snd (init_openai_client e r)) = recording_thread r"
  "tmp_files (snd (init_openai_client e r)) = tmp_files r"
  "config (snd (init_openai_client e r)) = config r"
  by (simp_all add: init_openai_client_def Let_def split: jval.splits option.splits)


lemma init_recorder_idle: "is_recording (init_recorder e fs cfg) = False"
  by (simp add: init_recorder_def init_openai_client_frame)

lemma start_failed_simps [simp]:
  "fst (start_failed msg r) = False"
  "is_recording (snd (start_failed msg r)) = False"
  by (simp_all add: start_failed_def)

text \<open>\<open>start_recording\<close> in Idle, once the credential check has given \<open>ok\<close> and \<open>r1\<close>.\<close>

lemma start_recording_unfold:
  assumes "\<not> is_recording r"
    and "(if client r \<noteq> None then (True, r) else init_openai_client e r) = (ok, r1)"
  shows "start_recording e r =
     (if \<not> ok then
        (False,
         emit (SingleShot 1000 ShowApiKeySettings)
           (emit (StatusUpdate
              ''Error: Failed to initialize OpenAI client. Please check your API key.'') r1))
      else
        (case query_devices e of
           Some msg \<Rightarrow> start_failed msg r1
         | None \<Rightarrow>
             (case thread_start e of
                Some msg \<Rightarrow>
                  start_failed msg
                    ((emit (RecordingStateChanged True)
                       (emit (StatusUpdate ''Recording...'')
                          (r1\<lparr>is_recording := True, audio_data := []\<rparr>)))
                     \<lparr>recording_thread := Some CaptureThread\<rparr>)
              | None \<Rightarrow>
                  (True,
                   emit ThreadStart
                     ((emit (RecordingStateChanged True)
                        (emit (StatusUpdate ''Recording...'')
                           (r1\<lparr>is_recording := True, audio_data := []\<rparr>)))
                      \<lparr>recording_thread := Some CaptureThread\<rparr>)))))"
  using assms(1) by (simp only: start_recording_def assms(2) Let_def prod.case if_False)

lemma start_from_idle:
  assumes "\<not> is_recording r"
  shows "is_recording (snd (start_recording e r)) = fst (start_recording e r)"
proof -
  obtain ok r1 where i:
    "(if client r \<noteq> None then (True, r) else init_openai_client e r) = (ok, r1)"
    by (cases "if client r \<noteq> None then (True, r) else init_openai_client e r")
  have "is_recording r1 = is_recording r"
  proof (cases "client r \<noteq> None")
    case True
    with i show ?thesis by simp
  next
    case False
    with i have "r1 = snd (init_openai_client e r)" by simp
    then show ?thesis by (simp only: init_openai_client_frame)
  qed
  with assms have r1: "\<not> is_recording r1" by simp
  then show ?thesis
    by (simp add: start_recording_unfold [OF assms i] split: option.splits)
qed

lemma update_config_idle: "is_recording (snd (update_config e cfg r)) = False"
proof -
  let ?r1 = "r\<lparr>config := cfg\<rparr>"
  obtain res r2 where s:
    "(if is_recording ?r1 then stop_recording e ?r1 else (Inr [], ?r1)) = (res, r2)"
    by (cases "if is_recording ?r1 then stop_recording e ?r1 else (Inr [], ?r1)")
  have r2: "is_recording r2 = False"
  proof (cases "is_recording ?r1")
    case True
    with s have "r2 = snd (stop_recording e ?r1)" by simp
    then show ?thesis by (simp only: stop_clears_flag)
  next
    case False
    with s have "r2 = ?r1" by simp
    with False show ?thesis by simp
  qed
  have u: "update_config e cfg r =
     (case res of
        Inl msg \<Rightarrow> (Inl msg, r2)
      | Inr text \<Rightarrow>
          (Inr (fst (init_openai_client e r2)),
           emit (StatusUpdate
                   (if fst (init_openai_client e r2) then ''API key updated successfully''
                    else ''Error: Failed to initialize with new API key''))
             (snd (init_openai_client e r2))))"
    by (simp only: update_config_def Let_def s prod.case case_prod_beta fst_conv snd_conv)
  show ?thesis
    by (cases res) (simp_all add: u r2 init_openai_client_frame)
qed

lemma audio_callback_flag: "is_recording (audio_callback c r) = is_recording r"
  by (simp add: audio_callback_def)

lemma record_audio_failed_idle: "is_recording (record_audio_failed msg r) = False"
  by (simp add: record_audio_failed_def)

lemma session_of_simps:
  "session_of r = Idle \<longleftrightarrow> \<not> is_recording r"
  "session_of r = Recording \<longleftrightarrow> is_recording r"
  by (simp_all add: session_of_def)


text \<open>
  Claim C1, as stated: \<open>stop()\<close> is the only transition from Recording to Idle. The
  \<open>except\<close> branch of the capture worker clears the flag itself when the input stream fails,
  without a call of \<open>stop_recording\<close>.
\<close>

theorem C1_counterexample:
  "session_of r_rec = Recording \<and>
   session_of (step (StreamError ''Invalid input device'') r_rec) = Idle \<and>
   \<not> calls_stop (StreamError ''Invalid input device'')"
  by (simp add: session_of_simps record_audio_failed_idle) (simp add: r_rec_eq)


text \<open>
  Claim C1, amended. The controller has the two states Idle and Recording and starts in
  Idle. The only step from Idle to Recording is \<open>start_recording\<close>, when it returns \<open>True\<close>.
  The steps from Recording to Idle are \<open>stop_recording\<close> (called directly or by
  \<open>update_config\<close>) and the failure branch of the capture worker. A \<open>start_recording\<close>
  that fails in Idle, every \<open>stop_recording\<close> whether it returns or raises, and a failure
  of the capture worker leave the controller in Idle: there is no third state.
\<close>

theorem C1_two_state_machine:
  "session_of (init_recorder e fs cfg) = Idle \<and>
   (session_of r = Idle \<and> session_of (step x r) = Recording \<longrightarrow> is_start x) \<and>
   (session_of r = Recording \<and> session_of (step x r) = Idle \<longrightarrow>
      calls_stop x \<or> is_stream_error x) \<and>
   (session_of r = Idle \<longrightarrow>
      session_of (snd (start_recording e r)) =
        (if fst (start_recording e r) then Recording else Idle)) \<and>
   session_of (snd (stop_recording e r)) = Idle \<and>
   session_of (snd (update_config e cfg r)) = Idle \<and>
   session_of (record_audio_failed msg r) = Idle"
proof -
  have init: "session_of (init_recorder e fs cfg) = Idle"
    by (simp add: session_of_simps init_recorder_idle)
  have up: "session_of r = Idle \<and> session_of (step x r) = Recording \<longrightarrow> is_start x"
    by (cases x)
       (simp_all add: session_of_simps stop_clears_flag update_config_idle
          audio_callback_flag record_audio_failed_idle)
  have down: "session_of r = Recording \<and> session_of (step x r) = Idle \<longrightarrow>
      calls_stop x \<or> is_stream_error x"
  proof (cases x)
    case (Start e')
    then show ?thesis by (simp add: session_of_simps start_recording_def)
  qed (simp_all add: session_of_simps audio_callback_flag)
  have start: "session_of r = Idle \<longrightarrow>
      session_of (snd (start_recording e r)) =
        (if fst (start_recording e r) then Recording else Idle)"
    by (simp add: session_of_def start_from_idle)
  have rest: "session_of (snd (stop_recording e r)) = Idle"
    "session_of (snd (update_config e cfg r)) = Idle"
    "session_of (record_audio_failed msg r) = Idle"
    by (simp_all add: session_of_simps stop_clears_flag update_config_idle record_audio_failed_idle)
  from init up down start rest show ?thesis by blast
qed

theorem C1_witness:
  "session_of r_idle = Idle \<and> session_of (step (Start e_ok) r_idle) = Recording \<and>
   is_start (Start e_ok) \<and>
   session_of r_rec = Recording \<and> session_of (step (Stop e_remote_fails) r_rec) = Idle \<and>
   calls_stop (Stop e_remote_fails)"
proof -
  have i: "session_of r_idle = Idle" and r: "session_of r_rec = Recording"
    by (simp_all add: session_of_def r_idle_eq r_rec_eq)
  have "step (Start e_ok) r_idle = r_started" by (simp add: r_started_def)
  then have s: "session_of (step (Start e_ok) r_idle) = Recording"
    by (simp add: session_of_def r_started_eq)
  from C1_two_state_machine [of e_remote_fails "{}" cfg_ok r_rec "Stop e_remote_fails"]
  have d: "session_of (step (Stop e_remote_fails) r_rec) = Idle" by simp
  from C1_two_state_machine [of e_ok "{}" cfg_ok r_idle "Start e_ok"] i s
  have u: "is_start (Start e_ok)" by blast
  from i r s d u show ?thesis by simp
qed


section \<open>Credentials\<close>

text \<open>When \<open>_init_openai_client\<close> succeeds: the key is a string that is not blank and is
  not the placeholder, the client can be built, and the probe accepts it.\<close>

lemma init_openai_client_ok_iff:
  "fst (init_openai_client e r) \<longleftrightarrow>
     (\<exists>k. get_or_none (config r) ''api_key'' = JStr k \<and> py_strip k \<noteq> [] \<and>
          \<not> contains ''your-api-key'' k \<and> openai_ctor e = None \<and> models_list e = None)"
proof (cases "get_or_none (config r) ''api_key''")
  case (JStr k)
  have "py_strip k \<noteq> [] \<Longrightarrow> k \<noteq> []" by auto
  then show ?thesis
    by (auto simp: init_openai_client_def JStr Let_def split: option.splits)
qed (simp_all add: init_openai_client_def Let_def)

text \<open>
  With no client held and a credential that is missing, blank or rejected,
  \<open>start_recording\<close> in Idle returns \<open>False\<close>, reports the failure, schedules the settings
  prompt as its last action and leaves the session as it was.
\<close>

lemma start_without_credential:
  assumes "\<not> is_recording r" and "client r = None" and "\<not> fst (init_openai_client e r)"
  shows "fst (start_recording e r) = False \<and>
         last (emitted (snd (start_recording e r))) = SingleShot 1000 ShowApiKeySettings \<and>
         is_recording (snd (start_recording e r)) = False \<and>
         audio_data (snd (start_recording e r)) = audio_data r \<and>
         recording_thread (snd (start_recording e r)) = recording_thread r"
proof -
  obtain ok r1 where i: "init_openai_client e r = (ok, r1)"
    by (cases "init_openai_client e r")
  with assms(3) have ok: "\<not> ok" by simp
  from i assms(2) have c: "(if client r \<noteq> None then (True, r) else init_openai_client e r) = (ok, r1)"
    by simp
  from i have r1: "r1 = snd (init_openai_client e r)" by simp
  have s: "start_recording e r =
     (False,
      emit (SingleShot 1000 ShowApiKeySettings)
        (emit (StatusUpdate
           ''Error: Failed to initialize OpenAI client. Please check your API key.'') r1))"
    using ok by (simp add: start_recording_unfold [OF assms(1) c])
  show ?thesis
    using assms(1) by (simp add: s r1 init_openai_client_frame)
qed

text \<open>
  Claim C3 fails on the code. The branch of \<open>_init_openai_client\<close> for a missing or
  blank key returns \<open>False\<close> without clearing \<open>self.client\<close>, as the two other failure
  branches do. A recorder that was built with an accepted key and is then given a
  configuration with a blank key by \<open>update_config\<close> keeps its old client, and
  \<open>start_recording\<close>, which only checks the credential when there is no client, starts a
  session: it returns \<open>True\<close> and schedules no prompt.
\<close>

theorem C3_stale_client_start_succeeds:
  "dict_get (config (snd (update_config e_ok cfg_blank r_idle))) ''api_key'' = Some (JStr '''') \<and>
   fst (update_config e_ok cfg_blank r_idle) = Inr False \<and>
   client (snd (update_config e_ok cfg_blank r_idle)) = Some ''sk-test'' \<and>
   \<not> is_recording (snd (update_config e_ok cfg_blank r_idle)) \<and>
   fst (start_recording e_ok (snd (update_config e_ok cfg_blank r_idle))) = True \<and>
   is_recording (snd (start_recording e_ok (snd (update_config e_ok cfg_blank r_idle)))) \<and>
   SingleShot 1000 ShowApiKeySettings \<notin>
     set (emitted (snd (start_recording e_ok (snd (update_config e_ok cfg_blank r_idle)))))"
proof -
  have k: "get_or_none cfg_blank ''api_key'' = JStr ''''"
    and g: "dict_get cfg_blank ''api_key'' = Some (JStr '''')"
    by (simp_all add: get_or_none_def dict_get_def cfg_blank_def update_conv')
  let ?r = "\<lparr> config = cfg_blank, is_recording = False, audio_data = [], recording_thread = None,
        client = Some ''sk-test'', emitted = [ModelsList ''sk-test''], tmp_files = {} \<rparr>"
  have i: "init_openai_client e_ok ?r = no_valid_key ?r"
    by (simp add: init_openai_client_def k)
  have u: "update_config e_ok cfg_blank r_idle =
     (Inr False,
      \<lparr> config = cfg_blank, is_recording = False, audio_data = [], recording_thread = None,
        client = Some ''sk-test'',
        emitted = [ModelsList ''sk-test'',
                   StatusUpdate ''Error: No valid OpenAI API key found in config'',
                   StatusUpdate ''Error: Failed to initialize with new API key''],
        tmp_files = {} \<rparr>)"
    by (simp add: update_config_def r_idle_eq i no_valid_key_def emit_def)
  show ?thesis
    by (simp add: u g) (simp add: start_recording_def e_ok_def emit_def)
qed


end
